theory Spec2Isabelle
  imports Main
begin

section \<open>The PostgreSQL database resource\<close>

text \<open>
  A shallow embedding of \<^verbatim>\<open>postgresql/resource_postgresql_database.go\<close>: the lifecycle
  operations of the database resource (Create, Read, Update, Delete, Exists) and the
  per-attribute setters they are composed from.

  The SQL connection, the provider client, the host's \<^verbatim>\<open>schema.ResourceData\<close> and the quoting
  helpers are collaborators defined outside this file of the repository. They are taken as
  parameters: the connection as two functions over an arbitrary store state, the quoting
  helpers as a record of functions. Locks are not modelled: every operation runs alone.
\<close>

subsection \<open>Values, errors, calls\<close>

datatype feature = featureDBAllowConnections | featureDBIsTemplate

text \<open>A value bound to a statement placeholder or held by a column of a result row.\<close>

datatype sqlval = SqlString string | SqlInt int | SqlBool bool

text \<open>
  Go errors. \<open>ErrNoRows\<close> is \<^verbatim>\<open>sql.ErrNoRows\<close>; \<open>DriverError m\<close> is any other error
  returned by the connection, \<open>m\<close> being its \<^verbatim>\<open>Error()\<close> text. \<open>Errorf f as\<close> is
  \<^verbatim>\<open>errors.New\<close> or \<^verbatim>\<open>fmt.Errorf\<close> with the literal format \<open>f\<close> and its arguments;
  \<open>Wrapf f as e\<close> is \<^verbatim>\<open>errwrap.Wrapf(fmt.Sprintf(f, as...), e)\<close>, and an \<^verbatim>\<open>fmt.Errorf\<close>
  whose format wraps \<open>e\<close> with \<^verbatim>\<open>%w\<close>. Formats are kept unrendered.
\<close>

datatype error =
    ErrNoRows
  | DriverError string
  | Errorf string "string list"
  | Wrapf string "string list" error

datatype row_result = Row "sqlval list" | NoRows | QueryFailed string

text \<open>One constructor per \<^verbatim>\<open>Exec\<close> call of the source file, named by what it executes.\<close>

datatype site =
    ExecGrant | ExecRevoke | ExecCreate | ExecDrop | ExecRename | ExecOwner
  | ExecTablespace | ExecConnLimit | ExecAllowConns | ExecIsTemplate

datatype call =
    CallExec site string "sqlval list"
  | CallQueryRow string "sqlval list"

subsection \<open>Collaborators\<close>

text \<open>
  \<open>pq.QuoteIdentifier\<close> (the driver's identifier quoting), \<open>pqQuoteLiteral\<close> (the
  provider's literal escaping, defined in another file) and \<open>strings.ToUpper\<close>.
\<close>

record Lib =
  QuoteIdentifier :: "string \<Rightarrow> string"
  pqQuoteLiteral :: "string \<Rightarrow> string"
  ToUpper :: "string \<Rightarrow> string"

text \<open>
  The provider client: \<^verbatim>\<open>c.config.Username\<close>, \<^verbatim>\<open>c.version.String()\<close>,
  \<^verbatim>\<open>c.featureSupported\<close> and the connection \<^verbatim>\<open>c.DB()\<close>. \<open>DB_Exec\<close> returns the
  \<^verbatim>\<open>Error()\<close> text of the error, if any; \<open>DB_QueryRow\<close> returns the row.
\<close>

record 's Client =
  config_Username :: string
  version_String :: string
  featureSupported :: "feature \<Rightarrow> bool"
  DB_Exec :: "'s \<Rightarrow> string \<Rightarrow> sqlval list \<Rightarrow> string option \<times> 's"
  DB_QueryRow :: "'s \<Rightarrow> string \<Rightarrow> sqlval list \<Rightarrow> row_result \<times> 's"

text \<open>The attributes of the schema; Go's \<^verbatim>\<open>int\<close> is only stored and printed.\<close>

record attrs =
  dbNameAttr :: string
  dbOwnerAttr :: string
  dbTemplateAttr :: string
  dbEncodingAttr :: string
  dbCollationAttr :: string
  dbCTypeAttr :: string
  dbTablespaceAttr :: string
  dbConnLimitAttr :: int
  dbAllowConnsAttr :: bool
  dbIsTemplateAttr :: bool

text \<open>
  \<^verbatim>\<open>schema.ResourceData\<close>: the identifier and three levels of attribute values. \<open>rd_old\<close>
  and \<open>rd_new\<close> are what \<^verbatim>\<open>GetChange\<close> returns (the state and the state merged with the
  diff), \<open>rd_get\<close> is what \<^verbatim>\<open>Get\<close> returns: \<open>rd_new\<close> overlaid with every \<^verbatim>\<open>Set\<close> so far.
\<close>

record ResourceData =
  rd_id :: string
  rd_old :: attrs
  rd_new :: attrs
  rd_get :: attrs

definition Id_rd :: "ResourceData \<Rightarrow> string" where
  "Id_rd d = rd_id d"

definition SetId :: "ResourceData \<Rightarrow> string \<Rightarrow> ResourceData" where
  "SetId d v = d\<lparr>rd_id := v\<rparr>"

definition Get :: "ResourceData \<Rightarrow> (attrs \<Rightarrow> 'a) \<Rightarrow> 'a" where
  "Get d key = key (rd_get d)"

text \<open>\<^verbatim>\<open>GetOk\<close>: the value, and whether it is set to a non-zero value.\<close>

definition GetOk :: "ResourceData \<Rightarrow> (attrs \<Rightarrow> string) \<Rightarrow> string \<times> bool" where
  "GetOk d key = (Get d key, Get d key \<noteq> [])"

definition GetChange :: "ResourceData \<Rightarrow> (attrs \<Rightarrow> 'a) \<Rightarrow> 'a \<times> 'a" where
  "GetChange d key = (key (rd_old d), key (rd_new d))"

definition HasChange :: "ResourceData \<Rightarrow> (attrs \<Rightarrow> 'a) \<Rightarrow> bool" where
  "HasChange d key = (fst (GetChange d key) \<noteq> snd (GetChange d key))"

text \<open>\<^verbatim>\<open>d.Set(key, v)\<close>, the attribute given by its update function.\<close>

definition Set_rd :: "ResourceData \<Rightarrow> (('a \<Rightarrow> 'a) \<Rightarrow> attrs \<Rightarrow> attrs) \<Rightarrow> 'a \<Rightarrow> ResourceData" where
  "Set_rd d key_update v = rd_get_update (key_update (\<lambda>_. v)) d"

text \<open>The store and the calls made on the connection so far, oldest first.\<close>

record 's world =
  store :: 's
  calls :: "call list"

definition Exec ::
  "'s Client \<Rightarrow> site \<Rightarrow> string \<Rightarrow> sqlval list \<Rightarrow> 's world \<Rightarrow> string option \<times> 's world" where
  "Exec c st sql args w =
     (case DB_Exec c (store w) sql args of
        (r, s') \<Rightarrow> (r, \<lparr>store = s', calls = calls w @ [CallExec st sql args]\<rparr>))"

definition QueryRow ::
  "'s Client \<Rightarrow> string \<Rightarrow> sqlval list \<Rightarrow> 's world \<Rightarrow> row_result \<times> 's world" where
  "QueryRow c sql args w =
     (case DB_QueryRow c (store w) sql args of
        (r, s') \<Rightarrow> (r, \<lparr>store = s', calls = calls w @ [CallQueryRow sql args]\<rparr>))"

subsection \<open>Formatting\<close>

text \<open>\<^verbatim>\<open>strings.Contains\<close>.\<close>

fun has_prefix :: "string \<Rightarrow> string \<Rightarrow> bool" where
  "has_prefix s [] = True"
| "has_prefix [] (p # ps) = False"
| "has_prefix (x # xs) (p # ps) = (x = p \<and> has_prefix xs ps)"

fun Contains :: "string \<Rightarrow> string \<Rightarrow> bool" where
  "Contains [] sub = (sub = [])"
| "Contains (x # xs) sub = (has_prefix (x # xs) sub \<or> Contains xs sub)"

text \<open>\<^verbatim>\<open>strings.Join\<close>.\<close>

fun Join :: "string list \<Rightarrow> string \<Rightarrow> string" where
  "Join [] sep = []"
| "Join [x] sep = x"
| "Join (x # y # ys) sep = x @ sep @ Join (y # ys) sep"

text \<open>What \<^verbatim>\<open>fmt.Fprint\<close> writes for an \<^verbatim>\<open>int\<close> and for a \<^verbatim>\<open>bool\<close>.\<close>

fun fmt_nat :: "nat \<Rightarrow> string" where
  "fmt_nat n =
     (if n < 10 then [''0123456789'' ! n]
      else fmt_nat (n div 10) @ [''0123456789'' ! (n mod 10)])"

declare fmt_nat.simps [simp del]

definition fmt_int :: "int \<Rightarrow> string" where
  "fmt_int i = (if i < 0 then ''-'' @ fmt_nat (nat (- i)) else fmt_nat (nat i))"

definition fmt_bool :: "bool \<Rightarrow> string" where
  "fmt_bool b = (if b then ''true'' else ''false'')"

subsection \<open>Scanning a row\<close>

text \<open>
  \<^verbatim>\<open>Scan\<close> of \<^verbatim>\<open>database/sql\<close> assigns the columns to its destinations in order,
  converting each value to the type of its destination, and stops at the first column that
  does not convert. The conversions are those of the library for a destination of type
  \<^verbatim>\<open>string\<close>, \<^verbatim>\<open>int\<close> (64 bits) and \<^verbatim>\<open>bool\<close>: a string is stored as it is and another
  value as its text; an integer is stored as it is and another value is parsed from its
  text by \<^verbatim>\<open>strconv.ParseInt\<close> in base 10; a bool is stored as it is, a string is parsed by
  \<^verbatim>\<open>strconv.ParseBool\<close>, and of the integers only 0 and 1 convert.
\<close>

fun asString :: "sqlval \<Rightarrow> string" where
  "asString (SqlString s) = s"
| "asString (SqlInt i) = fmt_int i"
| "asString (SqlBool b) = fmt_bool b"

definition digit_val :: "char \<Rightarrow> nat option" where
  "digit_val ch = map_of (zip ''0123456789'' [0, 1, 2, 3, 4, 5, 6, 7, 8, 9]) ch"

fun parse_digits :: "string \<Rightarrow> nat \<Rightarrow> nat option" where
  "parse_digits [] acc = Some acc"
| "parse_digits (ch # cs) acc =
     (case digit_val ch of None \<Rightarrow> None | Some v \<Rightarrow> parse_digits cs (10 * acc + v))"

definition ParseInt :: "string \<Rightarrow> int option" where
  "ParseInt s =
     (case s of
        [] \<Rightarrow> None
      | ch # cs \<Rightarrow>
          let neg = (ch = CHR ''-'');
              ds = (if ch = CHR ''-'' \<or> ch = CHR ''+'' then cs else s)
          in if ds = [] then None
             else case parse_digits ds 0 of
                    None \<Rightarrow> None
                  | Some un \<Rightarrow>
                      if neg then (if 2 ^ 63 < un then None else Some (- int un))
                      else (if 2 ^ 63 \<le> un then None else Some (int un)))"

definition ParseBool :: "string \<Rightarrow> bool option" where
  "ParseBool s =
     (if s \<in> set [''1'', ''t'', ''T'', ''TRUE'', ''true'', ''True''] then Some True
      else if s \<in> set [''0'', ''f'', ''F'', ''FALSE'', ''false'', ''False''] then Some False
      else None)"

fun assignString :: "sqlval \<Rightarrow> error + string" where
  "assignString v = Inr (asString v)"

fun assignInt :: "sqlval \<Rightarrow> error + int" where
  "assignInt (SqlInt i) = Inr i"
| "assignInt v =
     (case ParseInt (asString v) of
        Some i \<Rightarrow> Inr i
      | None \<Rightarrow> Inl (Errorf ''converting driver.Value type %T (%q) to a %s: %v'' [asString v]))"

fun assignBool :: "sqlval \<Rightarrow> error + bool" where
  "assignBool (SqlBool b) = Inr b"
| "assignBool (SqlString s) =
     (case ParseBool s of
        Some b \<Rightarrow> Inr b
      | None \<Rightarrow> Inl (Errorf ''sql/driver: couldn't convert %q into type bool'' [s]))"
| "assignBool (SqlInt i) =
     (if i = 1 then Inr True
      else if i = 0 then Inr False
      else Inl (Errorf ''sql/driver: couldn't convert %d into type bool'' [fmt_int i]))"

text \<open>
  The error of \<^verbatim>\<open>Scan\<close> for a column that does not convert (the column name, which the
  driver supplies, is not kept), and for a row whose number of columns is not the number
  of destinations.
\<close>

definition scanError :: "nat \<Rightarrow> error \<Rightarrow> error" where
  "scanError i e = Wrapf ''sql: Scan error on column index %d, name %q: %w'' [fmt_nat i] e"

definition countError :: "nat \<Rightarrow> nat \<Rightarrow> error" where
  "countError cols dests =
     Errorf ''sql: expected %d destination arguments in Scan, not %d'' [fmt_nat cols, fmt_nat dests]"

text \<open>
  \<^verbatim>\<open>QueryRow(...).Scan(...)\<close> into one string, two strings, four strings and an int, or
  one bool.
\<close>

fun Scan1s :: "row_result \<Rightarrow> error + string" where
  "Scan1s NoRows = Inl ErrNoRows"
| "Scan1s (QueryFailed m) = Inl (DriverError m)"
| "Scan1s (Row vs) =
     (case vs of
        [a] \<Rightarrow> (case assignString a of Inl e \<Rightarrow> Inl (scanError 0 e) | Inr x \<Rightarrow> Inr x)
      | _ \<Rightarrow> Inl (countError (length vs) 1))"

fun Scan2s :: "row_result \<Rightarrow> error + string \<times> string" where
  "Scan2s NoRows = Inl ErrNoRows"
| "Scan2s (QueryFailed m) = Inl (DriverError m)"
| "Scan2s (Row vs) =
     (case vs of
        [a, b] \<Rightarrow>
          (case assignString a of Inl e \<Rightarrow> Inl (scanError 0 e) | Inr x \<Rightarrow>
           case assignString b of Inl e \<Rightarrow> Inl (scanError 1 e) | Inr y \<Rightarrow>
           Inr (x, y))
      | _ \<Rightarrow> Inl (countError (length vs) 2))"

fun Scan4si :: "row_result \<Rightarrow> error + string \<times> string \<times> string \<times> string \<times> int" where
  "Scan4si NoRows = Inl ErrNoRows"
| "Scan4si (QueryFailed m) = Inl (DriverError m)"
| "Scan4si (Row vs) =
     (case vs of
        [a, b, c, e, i] \<Rightarrow>
          (case assignString a of Inl err \<Rightarrow> Inl (scanError 0 err) | Inr x \<Rightarrow>
           case assignString b of Inl err \<Rightarrow> Inl (scanError 1 err) | Inr y \<Rightarrow>
           case assignString c of Inl err \<Rightarrow> Inl (scanError 2 err) | Inr z \<Rightarrow>
           case assignString e of Inl err \<Rightarrow> Inl (scanError 3 err) | Inr u \<Rightarrow>
           case assignInt i of Inl err \<Rightarrow> Inl (scanError 4 err) | Inr n \<Rightarrow>
           Inr (x, y, z, u, n))
      | _ \<Rightarrow> Inl (countError (length vs) 5))"

fun Scan1b :: "row_result \<Rightarrow> error + bool" where
  "Scan1b NoRows = Inl ErrNoRows"
| "Scan1b (QueryFailed m) = Inl (DriverError m)"
| "Scan1b (Row vs) =
     (case vs of
        [a] \<Rightarrow> (case assignBool a of Inl e \<Rightarrow> Inl (scanError 0 e) | Inr x \<Rightarrow> Inr x)
      | _ \<Rightarrow> Inl (countError (length vs) 1))"

subsection \<open>Owner membership\<close>

definition grantRoleMembership ::
  "Lib \<Rightarrow> 's Client \<Rightarrow> string \<Rightarrow> string \<Rightarrow> 's world \<Rightarrow> error option \<times> 's world" where
  "grantRoleMembership L c dbOwner connUsername w =
     (if dbOwner \<noteq> [] \<and> dbOwner \<noteq> connUsername then
        (let sql = ''GRANT '' @ QuoteIdentifier L dbOwner @ '' TO '' @ QuoteIdentifier L connUsername
         in case Exec c ExecGrant sql [] w of
              (Some m, w1) \<Rightarrow>
                (if Contains m ''duplicate key value violates unique constraint''
                 then (None, w1)
                 else (Some (Wrapf ''Error granting membership: {{err}}'' [] (DriverError m)), w1))
            | (None, w1) \<Rightarrow> (None, w1))
      else (None, w))"

definition revokeRoleMembership ::
  "Lib \<Rightarrow> 's Client \<Rightarrow> string \<Rightarrow> string \<Rightarrow> 's world \<Rightarrow> error option \<times> 's world" where
  "revokeRoleMembership L c dbOwner connUsername w =
     (if dbOwner \<noteq> [] \<and> dbOwner \<noteq> connUsername then
        (let sql = ''REVOKE '' @ QuoteIdentifier L dbOwner @ '' FROM '' @ QuoteIdentifier L connUsername
         in case Exec c ExecRevoke sql [] w of
              (Some m, w1) \<Rightarrow>
                (Some (Wrapf ''Error revoking membership: {{err}}'' [] (DriverError m)), w1)
            | (None, w1) \<Rightarrow> (None, w1))
      else (None, w))"

text \<open>
  The deferred closure of \<^verbatim>\<open>resourcePostgreSQLDatabaseCreate\<close> and of \<^verbatim>\<open>setDBOwner\<close>: it
  revokes the membership and assigns the outcome (wrapped when it is an error) to the
  local variable \<^verbatim>\<open>err\<close>. Both functions declare an unnamed result, so the value of the
  \<^verbatim>\<open>return\<close> statement is fixed before the closure runs, and the variable is not read
  again: the closure's outcome is returned here for reference and dropped by its callers.
\<close>

definition deferredRevoke ::
  "Lib \<Rightarrow> 's Client \<Rightarrow> ResourceData \<Rightarrow> 's world \<Rightarrow> error option \<times> 's world" where
  "deferredRevoke L c d w =
     (case revokeRoleMembership L c (Get d dbOwnerAttr) (config_Username c) w of
        (Some err, w1) \<Rightarrow>
          (Some (Wrapf ''Error removing connection user (%q) from ROLE %q: {{err}}''
                   [config_Username c, Get d dbOwnerAttr] err), w1)
      | (None, w1) \<Rightarrow> (None, w1))"

subsection \<open>Create\<close>

text \<open>
  The statement built in the query buffer of \<^verbatim>\<open>resourcePostgreSQLDatabaseCreate\<close>. Every
  \<^verbatim>\<open>switch\<close> and block of the source appends one clause, or nothing, to the buffer: the
  clauses are given in the source's order, and \<open>createSQL\<close> is the final buffer.
\<close>

definition ownerClause :: "Lib \<Rightarrow> 's Client \<Rightarrow> ResourceData \<Rightarrow> string" where
  "ownerClause L c d =
     (case GetOk d dbOwnerAttr of (v, ok) \<Rightarrow>
        if ok then '' OWNER '' @ QuoteIdentifier L v
        else '' OWNER '' @ QuoteIdentifier L (config_Username c))"

definition templateClause :: "Lib \<Rightarrow> ResourceData \<Rightarrow> string" where
  "templateClause L d =
     (case GetOk d dbTemplateAttr of (v, ok) \<Rightarrow>
        if ok \<and> ToUpper L v = ''DEFAULT'' then '' TEMPLATE DEFAULT''
        else if ok then '' TEMPLATE '' @ QuoteIdentifier L v
        else if v = [] then '' TEMPLATE template0''
        else [])"

definition encodingClause :: "Lib \<Rightarrow> ResourceData \<Rightarrow> string" where
  "encodingClause L d =
     (case GetOk d dbEncodingAttr of (v, ok) \<Rightarrow>
        if ok \<and> ToUpper L v = ''DEFAULT'' then '' ENCODING DEFAULT''
        else if ok then '' ENCODING '' @ [CHR 0x27] @ pqQuoteLiteral L v @ [CHR 0x27] @ '' ''
        else if v = [] then '' ENCODING 'UTF8'' @ [CHR 0x27]
        else [])"

definition collationClause :: "Lib \<Rightarrow> ResourceData \<Rightarrow> string" where
  "collationClause L d =
     (case GetOk d dbCollationAttr of (v, ok) \<Rightarrow>
        if ok \<and> ToUpper L v = ''DEFAULT'' then '' LC_COLLATE DEFAULT''
        else if ok then '' LC_COLLATE '' @ [CHR 0x27] @ pqQuoteLiteral L v @ [CHR 0x27] @ '' ''
        else if v = [] then '' LC_COLLATE 'C'' @ [CHR 0x27]
        else [])"

definition ctypeClause :: "Lib \<Rightarrow> ResourceData \<Rightarrow> string" where
  "ctypeClause L d =
     (case GetOk d dbCTypeAttr of (v, ok) \<Rightarrow>
        if ok \<and> ToUpper L v = ''DEFAULT'' then '' LC_CTYPE DEFAULT''
        else if ok then '' LC_CTYPE '' @ [CHR 0x27] @ pqQuoteLiteral L v @ [CHR 0x27] @ '' ''
        else if v = [] then '' LC_CTYPE 'C'' @ [CHR 0x27]
        else [])"

definition tablespaceClause :: "Lib \<Rightarrow> ResourceData \<Rightarrow> string" where
  "tablespaceClause L d =
     (case GetOk d dbTablespaceAttr of (v, ok) \<Rightarrow>
        if ok \<and> ToUpper L v = ''DEFAULT'' then '' TABLESPACE DEFAULT''
        else if ok then '' TABLESPACE '' @ QuoteIdentifier L v
        else [])"

definition allowConnsClause :: "'s Client \<Rightarrow> ResourceData \<Rightarrow> string" where
  "allowConnsClause c d =
     (if featureSupported c featureDBAllowConnections
      then '' ALLOW_CONNECTIONS '' @ fmt_bool (Get d dbAllowConnsAttr)
      else [])"

definition connLimitClause :: "ResourceData \<Rightarrow> string" where
  "connLimitClause d = '' CONNECTION LIMIT '' @ fmt_int (Get d dbConnLimitAttr)"

definition isTemplateClause :: "'s Client \<Rightarrow> ResourceData \<Rightarrow> string" where
  "isTemplateClause c d =
     (if featureSupported c featureDBIsTemplate
      then '' IS_TEMPLATE '' @ fmt_bool (Get d dbIsTemplateAttr)
      else [])"

definition createSQL :: "Lib \<Rightarrow> 's Client \<Rightarrow> ResourceData \<Rightarrow> string" where
  "createSQL L c d =
     ''CREATE DATABASE '' @ QuoteIdentifier L (Get d dbNameAttr) @
     ownerClause L c d @ templateClause L d @ encodingClause L d @ collationClause L d @
     ctypeClause L d @ tablespaceClause L d @ allowConnsClause c d @ connLimitClause d @
     isTemplateClause c d"


subsection \<open>Read and Exists\<close>

definition dbSQLFmt :: "string \<Rightarrow> string" where
  "dbSQLFmt cols =
     ''SELECT '' @ cols @ '' '' @
     ''FROM pg_catalog.pg_database AS d, pg_catalog.pg_tablespace AS ts '' @
     ''WHERE d.datname = $1 AND d.dattablespace = ts.oid''"

definition columns :: "string list" where
  "columns =
     [''pg_catalog.pg_encoding_to_char(d.encoding)'',
      ''d.datcollate'',
      ''d.datctype'',
      ''ts.spcname'',
      ''d.datconnlimit'']"

definition nameOwnerSQL :: string where
  "nameOwnerSQL =
     ''SELECT d.datname, pg_catalog.pg_get_userbyid(d.datdba) from pg_database d WHERE datname=$1''"

definition existsSQL :: string where
  "existsSQL = ''SELECT d.datname from pg_database d WHERE datname=$1''"

definition resourcePostgreSQLDatabaseReadImpl ::
  "'s Client \<Rightarrow> ResourceData \<Rightarrow> 's world \<Rightarrow> error option \<times> ResourceData \<times> 's world" where
  "resourcePostgreSQLDatabaseReadImpl c d w =
     (let dbId = Id_rd d in
      case QueryRow c nameOwnerSQL [SqlString dbId] w of (r1, w1) \<Rightarrow>
      case Scan2s r1 of
        Inl err \<Rightarrow>
          if err = ErrNoRows then (None, SetId d [], w1)
          else (Some (Wrapf ''Error reading database: {{err}}'' [] err), d, w1)
      | Inr (dbName, ownerName) \<Rightarrow>
      let dbSQL = dbSQLFmt (Join columns '', '') in
      case QueryRow c dbSQL [SqlString dbId] w1 of (r2, w2) \<Rightarrow>
      case Scan4si r2 of
        Inl err \<Rightarrow>
          if err = ErrNoRows then (None, SetId d [], w2)
          else (Some (Wrapf ''Error reading database: {{err}}'' [] err), d, w2)
      | Inr (dbEncoding, dbCollation, dbCType, dbTablespaceName, dbConnLimit) \<Rightarrow>
      let d = Set_rd d dbNameAttr_update dbName;
          d = Set_rd d dbOwnerAttr_update ownerName;
          d = Set_rd d dbEncodingAttr_update dbEncoding;
          d = Set_rd d dbCollationAttr_update dbCollation;
          d = Set_rd d dbCTypeAttr_update dbCType;
          d = Set_rd d dbTablespaceAttr_update dbTablespaceName;
          d = Set_rd d dbConnLimitAttr_update dbConnLimit;
          dbTemplate = Get d dbTemplateAttr;
          dbTemplate = (if dbTemplate = [] then ''template0'' else dbTemplate);
          d = Set_rd d dbTemplateAttr_update dbTemplate
      in
      case (if featureSupported c featureDBAllowConnections then
              (case QueryRow c (dbSQLFmt ''d.datallowconn'') [SqlString dbId] w2 of (r3, w3) \<Rightarrow>
               case Scan1b r3 of
                 Inl err \<Rightarrow>
                   (Some (Wrapf ''Error reading ALLOW_CONNECTIONS property for DATABASE: {{err}}'' [] err),
                    d, w3)
               | Inr dbAllowConns \<Rightarrow>
                   (None, Set_rd d dbAllowConnsAttr_update dbAllowConns, w3))
            else (None, d, w2)) of
        (Some err, d, w3) \<Rightarrow> (Some err, d, w3)
      | (None, d, w3) \<Rightarrow>
      if featureSupported c featureDBIsTemplate then
        (case QueryRow c (dbSQLFmt ''d.datistemplate'') [SqlString dbId] w3 of (r4, w4) \<Rightarrow>
         case Scan1b r4 of
           Inl err \<Rightarrow>
             (Some (Wrapf ''Error reading IS_TEMPLATE property for DATABASE: {{err}}'' [] err), d, w4)
         | Inr dbIsTemplate \<Rightarrow>
             (None, Set_rd d dbIsTemplateAttr_update dbIsTemplate, w4))
      else (None, d, w3))"

definition resourcePostgreSQLDatabaseRead ::
  "'s Client \<Rightarrow> ResourceData \<Rightarrow> 's world \<Rightarrow> error option \<times> ResourceData \<times> 's world" where
  "resourcePostgreSQLDatabaseRead c d w = resourcePostgreSQLDatabaseReadImpl c d w"

definition resourcePostgreSQLDatabaseExists ::
  "'s Client \<Rightarrow> ResourceData \<Rightarrow> 's world \<Rightarrow> (bool \<times> error option) \<times> 's world" where
  "resourcePostgreSQLDatabaseExists c d w =
     (case QueryRow c existsSQL [SqlString (Id_rd d)] w of (r, w1) \<Rightarrow>
      case Scan1s r of
        Inl err \<Rightarrow>
          if err = ErrNoRows then ((False, None), w1)
          else ((False, Some err), w1)
      | Inr dbName \<Rightarrow> ((True, None), w1))"

text \<open>
  Create. The value returned on the last path is the outcome of the read; the deferred
  revoke runs after it on every path that follows the successful grant.
\<close>

definition resourcePostgreSQLDatabaseCreate ::
  "Lib \<Rightarrow> 's Client \<Rightarrow> ResourceData \<Rightarrow> 's world \<Rightarrow> error option \<times> ResourceData \<times> 's world" where
  "resourcePostgreSQLDatabaseCreate L c d w =
     (let dbName = Get d dbNameAttr in
      case grantRoleMembership L c (Get d dbOwnerAttr) (config_Username c) w of
        (Some err, w1) \<Rightarrow>
          (Some (Wrapf ''Error adding connection user (%q) to ROLE %q: {{err}}''
                   [config_Username c, Get d dbOwnerAttr] err), d, w1)
      | (None, w1) \<Rightarrow>
      let sql = createSQL L c d in
      case Exec c ExecCreate sql [] w1 of
        (Some m, w2) \<Rightarrow>
          (Some (Wrapf ''Error creating database %q: {{err}}'' [dbName] (DriverError m)), d,
           snd (deferredRevoke L c d w2))
      | (None, w2) \<Rightarrow>
      let d = SetId d dbName in
      case resourcePostgreSQLDatabaseReadImpl c d w2 of (err, d, w3) \<Rightarrow>
      (err, d, snd (deferredRevoke L c d w3)))"

subsection \<open>Update and its setters\<close>

definition setDBName ::
  "Lib \<Rightarrow> 's Client \<Rightarrow> ResourceData \<Rightarrow> 's world \<Rightarrow> error option \<times> ResourceData \<times> 's world" where
  "setDBName L c d w =
     (if \<not> HasChange d dbNameAttr then (None, d, w)
      else
        case GetChange d dbNameAttr of (oraw, nraw) \<Rightarrow>
        if nraw = [] then
          (Some (Errorf ''Error setting database name to an empty string'' []), d, w)
        else
          let sql = ''ALTER DATABASE '' @ QuoteIdentifier L oraw @ '' RENAME TO '' @ QuoteIdentifier L nraw
          in case Exec c ExecRename sql [] w of
               (Some m, w1) \<Rightarrow>
                 (Some (Wrapf ''Error updating database name: {{err}}'' [] (DriverError m)), d, w1)
             | (None, w1) \<Rightarrow> (None, SetId d nraw, w1))"

text \<open>
  The other setters read the resource data and do not change it: they return the error, if
  any, and the world. \<^verbatim>\<open>setDBOwner\<close> ends with \<^verbatim>\<open>return err\<close>, where \<^verbatim>\<open>err\<close> still
  holds the outcome of the grant, that is, \<^verbatim>\<open>nil\<close>.
\<close>

definition setDBOwner ::
  "Lib \<Rightarrow> 's Client \<Rightarrow> ResourceData \<Rightarrow> 's world \<Rightarrow> error option \<times> 's world" where
  "setDBOwner L c d w =
     (if \<not> HasChange d dbOwnerAttr then (None, w)
      else
        let owner = Get d dbOwnerAttr in
        if owner = [] then (None, w)
        else
          case grantRoleMembership L c (Get d dbOwnerAttr) (config_Username c) w of
            (Some err, w1) \<Rightarrow>
              (Some (Wrapf ''Error adding connection user (%q) to ROLE %q: {{err}}''
                       [config_Username c, Get d dbOwnerAttr] err), w1)
          | (None, w1) \<Rightarrow>
          let dbName = Get d dbNameAttr;
              sql = ''ALTER DATABASE '' @ QuoteIdentifier L dbName @ '' OWNER TO '' @ QuoteIdentifier L owner
          in case Exec c ExecOwner sql [] w1 of
               (Some m, w2) \<Rightarrow>
                 (Some (Wrapf ''Error updating database OWNER: {{err}}'' [] (DriverError m)),
                  snd (deferredRevoke L c d w2))
             | (None, w2) \<Rightarrow> (None, snd (deferredRevoke L c d w2)))"

definition setDBTablespace ::
  "Lib \<Rightarrow> 's Client \<Rightarrow> ResourceData \<Rightarrow> 's world \<Rightarrow> error option \<times> 's world" where
  "setDBTablespace L c d w =
     (if \<not> HasChange d dbTablespaceAttr then (None, w)
      else
        let tbspName = Get d dbTablespaceAttr;
            dbName = Get d dbNameAttr;
            sql = (if tbspName = [] \<or> ToUpper L tbspName = ''DEFAULT''
                   then ''ALTER DATABASE '' @ QuoteIdentifier L dbName @ '' RESET TABLESPACE''
                   else ''ALTER DATABASE '' @ QuoteIdentifier L dbName @ '' SET TABLESPACE '' @
                        QuoteIdentifier L tbspName)
        in case Exec c ExecTablespace sql [] w of
             (Some m, w1) \<Rightarrow>
               (Some (Wrapf ''Error updating database TABLESPACE: {{err}}'' [] (DriverError m)), w1)
           | (None, w1) \<Rightarrow> (None, w1))"

definition setDBConnLimit ::
  "Lib \<Rightarrow> 's Client \<Rightarrow> ResourceData \<Rightarrow> 's world \<Rightarrow> error option \<times> 's world" where
  "setDBConnLimit L c d w =
     (if \<not> HasChange d dbConnLimitAttr then (None, w)
      else
        let connLimit = Get d dbConnLimitAttr;
            dbName = Get d dbNameAttr;
            sql = ''ALTER DATABASE '' @ QuoteIdentifier L dbName @ '' CONNECTION LIMIT = $1''
        in case Exec c ExecConnLimit sql [SqlInt connLimit] w of
             (Some m, w1) \<Rightarrow>
               (Some (Wrapf ''Error updating database CONNECTION LIMIT: {{err}}'' [] (DriverError m)),
                w1)
           | (None, w1) \<Rightarrow> (None, w1))"

definition setDBAllowConns ::
  "Lib \<Rightarrow> 's Client \<Rightarrow> ResourceData \<Rightarrow> 's world \<Rightarrow> error option \<times> 's world" where
  "setDBAllowConns L c d w =
     (if \<not> HasChange d dbAllowConnsAttr then (None, w)
      else if \<not> featureSupported c featureDBAllowConnections then
        (Some (Errorf
           ''PostgreSQL client is talking with a server (%q) that does not support database ALLOW_CONNECTIONS''
           [version_String c]), w)
      else
        let allowConns = Get d dbAllowConnsAttr;
            dbName = Get d dbNameAttr;
            sql = ''ALTER DATABASE '' @ QuoteIdentifier L dbName @ '' ALLOW_CONNECTIONS $1''
        in case Exec c ExecAllowConns sql [SqlBool allowConns] w of
             (Some m, w1) \<Rightarrow>
               (Some (Wrapf ''Error updating database ALLOW_CONNECTIONS: {{err}}'' [] (DriverError m)),
                w1)
           | (None, w1) \<Rightarrow> (None, w1))"

definition doSetDBIsTemplate ::
  "Lib \<Rightarrow> 's Client \<Rightarrow> string \<Rightarrow> bool \<Rightarrow> 's world \<Rightarrow> error option \<times> 's world" where
  "doSetDBIsTemplate L c dbName isTemplate w =
     (if \<not> featureSupported c featureDBIsTemplate then
        (Some (Errorf
           ''PostgreSQL client is talking with a server (%q) that does not support database IS_TEMPLATE''
           [version_String c]), w)
      else
        let sql = ''ALTER DATABASE '' @ QuoteIdentifier L dbName @ '' IS_TEMPLATE $1''
        in case Exec c ExecIsTemplate sql [SqlBool isTemplate] w of
             (Some m, w1) \<Rightarrow>
               (Some (Wrapf ''Error updating database IS_TEMPLATE: {{err}}'' [] (DriverError m)), w1)
           | (None, w1) \<Rightarrow> (None, w1))"

definition setDBIsTemplate ::
  "Lib \<Rightarrow> 's Client \<Rightarrow> ResourceData \<Rightarrow> 's world \<Rightarrow> error option \<times> 's world" where
  "setDBIsTemplate L c d w =
     (if \<not> HasChange d dbIsTemplateAttr then (None, w)
      else
        case doSetDBIsTemplate L c (Get d dbNameAttr) (Get d dbIsTemplateAttr) w of
          (Some err, w1) \<Rightarrow>
            (Some (Wrapf ''Error updating database IS_TEMPLATE: {{err}}'' [] err), w1)
        | (None, w1) \<Rightarrow> (None, w1))"

definition resourcePostgreSQLDatabaseUpdate ::
  "Lib \<Rightarrow> 's Client \<Rightarrow> ResourceData \<Rightarrow> 's world \<Rightarrow> error option \<times> ResourceData \<times> 's world" where
  "resourcePostgreSQLDatabaseUpdate L c d w =
     (case setDBName L c d w of
        (Some err, d, w) \<Rightarrow> (Some err, d, w)
      | (None, d, w) \<Rightarrow>
      case setDBOwner L c d w of
        (Some err, w) \<Rightarrow> (Some err, d, w)
      | (None, w) \<Rightarrow>
      case setDBTablespace L c d w of
        (Some err, w) \<Rightarrow> (Some err, d, w)
      | (None, w) \<Rightarrow>
      case setDBConnLimit L c d w of
        (Some err, w) \<Rightarrow> (Some err, d, w)
      | (None, w) \<Rightarrow>
      case setDBAllowConns L c d w of
        (Some err, w) \<Rightarrow> (Some err, d, w)
      | (None, w) \<Rightarrow>
      case setDBIsTemplate L c d w of
        (Some err, w) \<Rightarrow> (Some err, d, w)
      | (None, w) \<Rightarrow>
      resourcePostgreSQLDatabaseReadImpl c d w)"

subsection \<open>Delete\<close>

definition resourcePostgreSQLDatabaseDelete ::
  "Lib \<Rightarrow> 's Client \<Rightarrow> ResourceData \<Rightarrow> 's world \<Rightarrow> error option \<times> ResourceData \<times> 's world" where
  "resourcePostgreSQLDatabaseDelete L c d w =
     (let dbName = Get d dbNameAttr in
      case (if featureSupported c featureDBIsTemplate \<and> Get d dbIsTemplateAttr
            then doSetDBIsTemplate L c dbName False w
            else (None, w)) of
        (Some err, w1) \<Rightarrow>
          (Some (Wrapf ''Error updating database IS_TEMPLATE during DROP DATABASE: {{err}}'' [] err),
           d, w1)
      | (None, w1) \<Rightarrow>
      case setDBIsTemplate L c d w1 of
        (Some err, w2) \<Rightarrow> (Some err, d, w2)
      | (None, w2) \<Rightarrow>
      let sql = ''DROP DATABASE '' @ QuoteIdentifier L dbName
      in case Exec c ExecDrop sql [] w2 of
           (Some m, w3) \<Rightarrow>
             (Some (Wrapf ''Error dropping database: {{err}}'' [] (DriverError m)), d, w3)
         | (None, w3) \<Rightarrow> (None, SetId d [], w3))"

subsection \<open>Executed statements\<close>

text \<open>The statements executed among a list of calls, in order.\<close>

fun execs :: "call list \<Rightarrow> (site \<times> string \<times> sqlval list) list" where
  "execs [] = []"
| "execs (CallExec st sql args # cs) = (st, sql, args) # execs cs"
| "execs (CallQueryRow sql args # cs) = execs cs"

text \<open>
  \<open>emits X w w'\<close>: the calls of \<open>w'\<close> are those of \<open>w\<close> followed by further calls, and
  every statement executed among the further calls is in \<open>X\<close>.
\<close>

definition emits :: "(site \<times> string \<times> sqlval list) set \<Rightarrow> 's world \<Rightarrow> 's world \<Rightarrow> bool" where
  "emits X w w' =
     (take (length (calls w)) (calls w') = calls w \<and>
      set (execs (drop (length (calls w)) (calls w'))) \<subseteq> X)"

subsection \<open>A concrete client\<close>

text \<open>
  Fixtures for evaluating the operations: the driver's identifier quoting and the
  provider's literal escaping (both double the quote character), upper-casing of ASCII
  letters, and a store without state that answers the catalog queries for one database
  and fails, with the listed message, the statements whose text starts with a listed word.
\<close>

fun replace_char :: "char \<Rightarrow> string \<Rightarrow> string \<Rightarrow> string" where
  "replace_char q r [] = []"
| "replace_char q r (x # xs) = (if x = q then r @ replace_char q r xs else x # replace_char q r xs)"

definition upper_char :: "char \<Rightarrow> char" where
  "upper_char ch =
     (case map_of (zip ''abcdefghijklmnopqrstuvwxyz'' ''ABCDEFGHIJKLMNOPQRSTUVWXYZ'') ch of
        Some u \<Rightarrow> u
      | None \<Rightarrow> ch)"

definition testLib :: Lib where
  "testLib =
     \<lparr>QuoteIdentifier = (\<lambda>s. [CHR 0x22] @ replace_char (CHR 0x22) [CHR 0x22, CHR 0x22] s @ [CHR 0x22]),
      pqQuoteLiteral = (\<lambda>s. replace_char (CHR 0x27) [CHR 0x27, CHR 0x27] s),
      ToUpper = map upper_char\<rparr>"

definition testQuery :: "attrs \<Rightarrow> string \<Rightarrow> sqlval list \<Rightarrow> row_result" where
  "testQuery row sql args =
     (if args \<noteq> [SqlString (dbNameAttr row)] then NoRows
      else if sql = nameOwnerSQL then Row [SqlString (dbNameAttr row), SqlString (dbOwnerAttr row)]
      else if sql = existsSQL then Row [SqlString (dbNameAttr row)]
      else if sql = dbSQLFmt (Join columns '', '') then
        Row [SqlString (dbEncodingAttr row), SqlString (dbCollationAttr row),
             SqlString (dbCTypeAttr row), SqlString (dbTablespaceAttr row),
             SqlInt (dbConnLimitAttr row)]
      else if sql = dbSQLFmt ''d.datallowconn'' then Row [SqlBool (dbAllowConnsAttr row)]
      else if sql = dbSQLFmt ''d.datistemplate'' then Row [SqlBool (dbIsTemplateAttr row)]
      else QueryFailed ''syntax error'')"

definition testClient ::
  "string \<Rightarrow> (feature \<Rightarrow> bool) \<Rightarrow> (string \<times> string) list \<Rightarrow> attrs \<Rightarrow> unit Client" where
  "testClient user feats failing row =
     \<lparr>config_Username = user,
      version_String = ''9.4.0'',
      featureSupported = feats,
      DB_Exec = (\<lambda>s sql args.
        (map_option snd (find (\<lambda>pm. has_prefix sql (fst pm)) failing), s)),
      DB_QueryRow = (\<lambda>s sql args. (testQuery row sql args, s))\<rparr>"

definition testAttrs :: attrs where
  "testAttrs =
     \<lparr>dbNameAttr = ''app_db'', dbOwnerAttr = ''app_role'', dbTemplateAttr = ''template0'',
      dbEncodingAttr = ''UTF8'', dbCollationAttr = ''C'', dbCTypeAttr = ''C'',
      dbTablespaceAttr = ''pg_default'', dbConnLimitAttr = - 1,
      dbAllowConnsAttr = True, dbIsTemplateAttr = False\<rparr>"

definition testData :: "string \<Rightarrow> attrs \<Rightarrow> attrs \<Rightarrow> ResourceData" where
  "testData i old new = \<lparr>rd_id = i, rd_old = old, rd_new = new, rd_get = new\<rparr>"

definition emptyWorld :: "unit world" where
  "emptyWorld = \<lparr>store = (), calls = []\<rparr>"





definition duplicateKeyMessage :: string where
  "duplicateKeyMessage =
     ''pq: duplicate key value violates unique constraint pg_auth_members_role_member_index''"

section \<open>Properties\<close>

subsection \<open>Calls made by the building blocks\<close>

lemma execs_append: "execs (xs @ ys) = execs xs @ execs ys"
  by (induction xs rule: execs.induct) simp_all

lemma calls_Exec: "calls (snd (Exec c st sql args w)) = calls w @ [CallExec st sql args]"
  by (simp add: Exec_def split: prod.split)

lemma QueryRow_split:
  "P (QueryRow c sql args w) =
     (\<forall>r s'. DB_QueryRow c (store w) sql args = (r, s') \<longrightarrow>
        P (r, \<lparr>store = s', calls = calls w @ [CallQueryRow sql args]\<rparr>))"
  by (cases "DB_QueryRow c (store w) sql args") (simp add: QueryRow_def)

lemma grantRoleMembership_calls:
  "\<exists>cs. calls (snd (grantRoleMembership L c ow u w)) = calls w @ cs \<and>
        set (map fst (execs cs)) \<subseteq> {ExecGrant}"
  by (auto simp: grantRoleMembership_def Exec_def Let_def split: prod.splits option.splits)

lemma revokeRoleMembership_calls:
  "\<exists>cs. calls (snd (revokeRoleMembership L c ow u w)) = calls w @ cs \<and>
        set (map fst (execs cs)) \<subseteq> {ExecRevoke}"
  by (auto simp: revokeRoleMembership_def Exec_def Let_def split: prod.splits option.splits)

lemma deferredRevoke_calls:
  "\<exists>cs. calls (snd (deferredRevoke L c d w)) = calls w @ cs \<and>
        set (map fst (execs cs)) \<subseteq> {ExecRevoke}"
  using revokeRoleMembership_calls[of L c "Get d dbOwnerAttr" "config_Username c" w]
  by (auto simp: deferredRevoke_def split: prod.splits option.splits)

lemma ReadImpl_calls:
  "\<exists>cs. calls (snd (snd (resourcePostgreSQLDatabaseReadImpl c d w))) = calls w @ cs \<and>
        execs cs = []"
  unfolding resourcePostgreSQLDatabaseReadImpl_def Let_def
  by (simp add: execs_append split: QueryRow_split sum.split prod.split option.split)

lemma emits_iff: "emits X w w' \<longleftrightarrow> (\<exists>cs. calls w' = calls w @ cs \<and> set (execs cs) \<subseteq> X)"
proof
  assume "emits X w w'"
  then have "calls w' = calls w @ drop (length (calls w)) (calls w')"
    and "set (execs (drop (length (calls w)) (calls w'))) \<subseteq> X"
    unfolding emits_def by (metis append_take_drop_id, simp)
  then show "\<exists>cs. calls w' = calls w @ cs \<and> set (execs cs) \<subseteq> X" by blast
next
  assume "\<exists>cs. calls w' = calls w @ cs \<and> set (execs cs) \<subseteq> X"
  then show "emits X w w'" by (auto simp: emits_def)
qed

lemma emits_refl: "emits X w w"
  by (simp add: emits_def)

lemma emits_trans: "emits X w w1 \<Longrightarrow> emits X w1 w2 \<Longrightarrow> emits X w w2"
  by (auto simp: emits_iff execs_append)

lemma emits_Exec: "(st, sql, args) \<in> X \<Longrightarrow> emits X w (snd (Exec c st sql args w))"
  by (simp add: emits_iff calls_Exec)

lemma emits_Exec_eq: "Exec c st sql args w = (r, w1) \<Longrightarrow> (st, sql, args) \<in> X \<Longrightarrow> emits X w w1"
  using emits_Exec[of st sql args X w c] by simp

lemma emits_grant:
  "(ExecGrant, ''GRANT '' @ QuoteIdentifier L ow @ '' TO '' @ QuoteIdentifier L u, []) \<in> X \<Longrightarrow>
   emits X w (snd (grantRoleMembership L c ow u w))"
  by (auto simp: grantRoleMembership_def Let_def emits_refl split: prod.splits option.splits
      intro: emits_Exec_eq)

lemma emits_revoke:
  "(ExecRevoke, ''REVOKE '' @ QuoteIdentifier L ow @ '' FROM '' @ QuoteIdentifier L u, []) \<in> X \<Longrightarrow>
   emits X w (snd (revokeRoleMembership L c ow u w))"
  by (auto simp: revokeRoleMembership_def Let_def emits_refl split: prod.splits option.splits
      intro: emits_Exec_eq)

lemma emits_deferredRevoke:
  "(ExecRevoke, ''REVOKE '' @ QuoteIdentifier L (Get d dbOwnerAttr) @ '' FROM '' @
      QuoteIdentifier L (config_Username c), []) \<in> X \<Longrightarrow>
   emits X w (snd (deferredRevoke L c d w))"
  using emits_revoke[of L "Get d dbOwnerAttr" "config_Username c" X w c]
  by (auto simp: deferredRevoke_def split: prod.splits option.splits)

lemma emits_ReadImpl: "emits X w (snd (snd (resourcePostgreSQLDatabaseReadImpl c d w)))"
  using ReadImpl_calls[of c d w] by (auto simp: emits_iff)

lemma emits_setDBName:
  "(ExecRename, ''ALTER DATABASE '' @ QuoteIdentifier L (fst (GetChange d dbNameAttr)) @
      '' RENAME TO '' @ QuoteIdentifier L (snd (GetChange d dbNameAttr)), []) \<in> X \<Longrightarrow>
   emits X w (snd (snd (setDBName L c d w)))"
  by (auto simp: setDBName_def Let_def emits_refl split: prod.splits option.splits
      intro: emits_Exec_eq)

lemma setDBName_data:
  "rd_old (fst (snd (setDBName L c d w))) = rd_old d \<and>
   rd_new (fst (snd (setDBName L c d w))) = rd_new d \<and>
   rd_get (fst (snd (setDBName L c d w))) = rd_get d"
  by (auto simp: setDBName_def Let_def SetId_def split: prod.splits option.splits)

lemma emits_setDBOwner:
  assumes "(ExecGrant, ''GRANT '' @ QuoteIdentifier L (Get d dbOwnerAttr) @ '' TO '' @
              QuoteIdentifier L (config_Username c), []) \<in> X"
    and "(ExecOwner, ''ALTER DATABASE '' @ QuoteIdentifier L (Get d dbNameAttr) @ '' OWNER TO '' @
              QuoteIdentifier L (Get d dbOwnerAttr), []) \<in> X"
    and "(ExecRevoke, ''REVOKE '' @ QuoteIdentifier L (Get d dbOwnerAttr) @ '' FROM '' @
              QuoteIdentifier L (config_Username c), []) \<in> X"
  shows "emits X w (snd (setDBOwner L c d w))"
proof -
  let ?w1 = "snd (grantRoleMembership L c (Get d dbOwnerAttr) (config_Username c) w)"
  have g: "emits X w ?w1"
    by (rule emits_grant[OF assms(1)])
  have e: "\<And>r w2. Exec c ExecOwner (''ALTER DATABASE '' @ QuoteIdentifier L (Get d dbNameAttr) @
              '' OWNER TO '' @ QuoteIdentifier L (Get d dbOwnerAttr)) [] ?w1 = (r, w2) \<Longrightarrow>
            emits X w (snd (deferredRevoke L c d w2))"
    by (blast intro: emits_trans g emits_Exec_eq[OF _ assms(2)] emits_deferredRevoke[OF assms(3)])
  show ?thesis
    using g e
    by (auto simp: setDBOwner_def Let_def emits_refl split: prod.splits option.splits)
qed

lemma emits_setDBTablespace:
  "(\<And>sql. (ExecTablespace, sql, []) \<in> X) \<Longrightarrow> emits X w (snd (setDBTablespace L c d w))"
  by (auto simp: setDBTablespace_def Let_def emits_refl split: prod.splits option.splits
      intro: emits_Exec_eq)

lemma emits_setDBConnLimit:
  "(ExecConnLimit, ''ALTER DATABASE '' @ QuoteIdentifier L (Get d dbNameAttr) @
      '' CONNECTION LIMIT = $1'', [SqlInt (Get d dbConnLimitAttr)]) \<in> X \<Longrightarrow>
   emits X w (snd (setDBConnLimit L c d w))"
  by (auto simp: setDBConnLimit_def Let_def emits_refl split: prod.splits option.splits
      intro: emits_Exec_eq)

lemma emits_setDBAllowConns:
  "(featureSupported c featureDBAllowConnections \<Longrightarrow>
      (ExecAllowConns, ''ALTER DATABASE '' @ QuoteIdentifier L (Get d dbNameAttr) @
         '' ALLOW_CONNECTIONS $1'', [SqlBool (Get d dbAllowConnsAttr)]) \<in> X) \<Longrightarrow>
   emits X w (snd (setDBAllowConns L c d w))"
  by (auto simp: setDBAllowConns_def Let_def emits_refl split: prod.splits option.splits
      intro: emits_Exec_eq)

lemma emits_doSetDBIsTemplate:
  "(featureSupported c featureDBIsTemplate \<Longrightarrow>
      (ExecIsTemplate, ''ALTER DATABASE '' @ QuoteIdentifier L n @ '' IS_TEMPLATE $1'',
       [SqlBool b]) \<in> X) \<Longrightarrow>
   emits X w (snd (doSetDBIsTemplate L c n b w))"
  by (auto simp: doSetDBIsTemplate_def Let_def emits_refl split: prod.splits option.splits
      intro: emits_Exec_eq)

lemma emits_setDBIsTemplate:
  "(featureSupported c featureDBIsTemplate \<Longrightarrow>
      (ExecIsTemplate, ''ALTER DATABASE '' @ QuoteIdentifier L (Get d dbNameAttr) @
         '' IS_TEMPLATE $1'', [SqlBool (Get d dbIsTemplateAttr)]) \<in> X) \<Longrightarrow>
   emits X w (snd (setDBIsTemplate L c d w))"
  using emits_doSetDBIsTemplate[of c L "Get d dbNameAttr" "Get d dbIsTemplateAttr" X w]
  by (auto simp: setDBIsTemplate_def emits_refl split: prod.splits option.splits)


lemma Update_emits:
  assumes rn: "(ExecRename, ''ALTER DATABASE '' @ QuoteIdentifier L (fst (GetChange d dbNameAttr)) @
      '' RENAME TO '' @ QuoteIdentifier L (snd (GetChange d dbNameAttr)), []) \<in> X"
    and gr: "(ExecGrant, ''GRANT '' @ QuoteIdentifier L (Get d dbOwnerAttr) @ '' TO '' @
              QuoteIdentifier L (config_Username c), []) \<in> X"
    and ow: "(ExecOwner, ''ALTER DATABASE '' @ QuoteIdentifier L (Get d dbNameAttr) @ '' OWNER TO '' @
              QuoteIdentifier L (Get d dbOwnerAttr), []) \<in> X"
    and rv: "(ExecRevoke, ''REVOKE '' @ QuoteIdentifier L (Get d dbOwnerAttr) @ '' FROM '' @
              QuoteIdentifier L (config_Username c), []) \<in> X"
    and ts: "\<And>sql. (ExecTablespace, sql, []) \<in> X"
    and cl: "(ExecConnLimit, ''ALTER DATABASE '' @ QuoteIdentifier L (Get d dbNameAttr) @
      '' CONNECTION LIMIT = $1'', [SqlInt (Get d dbConnLimitAttr)]) \<in> X"
    and ac: "featureSupported c featureDBAllowConnections \<Longrightarrow>
      (ExecAllowConns, ''ALTER DATABASE '' @ QuoteIdentifier L (Get d dbNameAttr) @
         '' ALLOW_CONNECTIONS $1'', [SqlBool (Get d dbAllowConnsAttr)]) \<in> X"
    and it: "featureSupported c featureDBIsTemplate \<Longrightarrow>
      (ExecIsTemplate, ''ALTER DATABASE '' @ QuoteIdentifier L (Get d dbNameAttr) @
         '' IS_TEMPLATE $1'', [SqlBool (Get d dbIsTemplateAttr)]) \<in> X"
  shows "emits X w (snd (snd (setDBName L c d w)))"
    and "emits X (snd (snd (setDBName L c d w))) (snd (snd (resourcePostgreSQLDatabaseUpdate L c d w)))"
proof -
  obtain e1 d1 w1 where s1: "setDBName L c d w = (e1, d1, w1)"
    by (cases "setDBName L c d w") auto
  have dd: "Get d1 = Get d"
    using setDBName_data[of L c d w] s1 by (auto simp: Get_def fun_eq_iff)
  show m1: "emits X w (snd (snd (setDBName L c d w)))"
    by (rule emits_setDBName[OF rn])
  obtain e2 w2 where s2: "setDBOwner L c d1 w1 = (e2, w2)"
    by (cases "setDBOwner L c d1 w1") auto
  have m2: "emits X w1 w2"
    using emits_setDBOwner[of L d1 c X w1] gr ow rv s2 by (simp add: dd)
  obtain e3 w3 where s3: "setDBTablespace L c d1 w2 = (e3, w3)"
    by (cases "setDBTablespace L c d1 w2") auto
  have m3: "emits X w1 w3"
    using emits_setDBTablespace[of X w2 L c d1] ts s3 m2 by (auto intro: emits_trans)
  obtain e4 w4 where s4: "setDBConnLimit L c d1 w3 = (e4, w4)"
    by (cases "setDBConnLimit L c d1 w3") auto
  have m4: "emits X w1 w4"
    using emits_setDBConnLimit[of L d1 X w3 c] cl s4 m3 by (auto simp: dd intro: emits_trans)
  obtain e5 w5 where s5: "setDBAllowConns L c d1 w4 = (e5, w5)"
    by (cases "setDBAllowConns L c d1 w4") auto
  have m5: "emits X w1 w5"
    using emits_setDBAllowConns[of c L d1 X w4] ac s5 m4 by (auto simp: dd intro: emits_trans)
  obtain e6 w6 where s6: "setDBIsTemplate L c d1 w5 = (e6, w6)"
    by (cases "setDBIsTemplate L c d1 w5") auto
  have m6: "emits X w1 w6"
    using emits_setDBIsTemplate[of c L d1 X w5] it s6 m5 by (auto simp: dd intro: emits_trans)
  have m7: "emits X w1 (snd (snd (resourcePostgreSQLDatabaseReadImpl c d1 w6)))"
    using emits_ReadImpl[of X w6 c d1] m6 by (auto intro: emits_trans)
  show "emits X (snd (snd (setDBName L c d w))) (snd (snd (resourcePostgreSQLDatabaseUpdate L c d w)))"
    using s1 s2 s3 s4 s5 s6 m2 m3 m4 m5 m6 m7
    by (simp add: resourcePostgreSQLDatabaseUpdate_def emits_refl split: option.split)
qed

text \<open>The definitions unfolded to evaluate an operation on the concrete client.\<close>

lemmas test_defs = testClient_def testLib_def testData_def testAttrs_def emptyWorld_def testQuery_def
  upper_char_def fmt_int_def fmt_bool_def fmt_nat.simps

lemmas op_defs = resourcePostgreSQLDatabaseDelete_def resourcePostgreSQLDatabaseUpdate_def
  setDBName_def setDBOwner_def setDBTablespace_def setDBConnLimit_def setDBAllowConns_def
  doSetDBIsTemplate_def setDBIsTemplate_def resourcePostgreSQLDatabaseRead_def
  resourcePostgreSQLDatabaseExists_def
  Exec_def QueryRow_def Let_def SetId_def Get_def GetOk_def GetChange_def HasChange_def Id_rd_def Set_rd_def

lemmas create_defs = resourcePostgreSQLDatabaseCreate_def grantRoleMembership_def revokeRoleMembership_def
  deferredRevoke_def createSQL_def ownerClause_def templateClause_def encodingClause_def collationClause_def
  ctypeClause_def tablespaceClause_def allowConnsClause_def connLimitClause_def isTemplateClause_def
  resourcePostgreSQLDatabaseReadImpl_def nameOwnerSQL_def dbSQLFmt_def columns_def existsSQL_def


subsection \<open>Owner membership grant\<close>

text \<open>
  C9. When the store answers the \<^verbatim>\<open>GRANT\<close> statement with an error whose text contains
  the duplicate-key message, \<open>grantRoleMembership\<close> returns no error. When the owner name
  is empty or equals the connection's user name, it returns no error and leaves the world as
  it was: no statement is executed.
\<close>

theorem grantRoleMembership_duplicate_or_noop:
  "(fst (DB_Exec c (store w)
           (''GRANT '' @ QuoteIdentifier L dbOwner @ '' TO '' @ QuoteIdentifier L connUsername) [])
      = Some m \<and>
    Contains m ''duplicate key value violates unique constraint''
    \<longrightarrow> fst (grantRoleMembership L c dbOwner connUsername w) = None) \<and>
   (dbOwner = [] \<or> dbOwner = connUsername
    \<longrightarrow> grantRoleMembership L c dbOwner connUsername w = (None, w))"
  by (auto simp: grantRoleMembership_def Exec_def Let_def split: prod.splits option.splits)

theorem grantRoleMembership_duplicate_or_noop_witness:
  "fst (DB_Exec (testClient ''postgres'' (\<lambda>f. False) [(''GRANT'', duplicateKeyMessage)] testAttrs)
          (store emptyWorld)
          (''GRANT '' @ QuoteIdentifier testLib ''app_role'' @ '' TO '' @
           QuoteIdentifier testLib ''postgres'') [])
     = Some duplicateKeyMessage \<and>
   Contains duplicateKeyMessage ''duplicate key value violates unique constraint'' \<and>
   fst (grantRoleMembership testLib
          (testClient ''postgres'' (\<lambda>f. False) [(''GRANT'', duplicateKeyMessage)] testAttrs)
          ''app_role'' ''postgres'' emptyWorld) = None \<and>
   grantRoleMembership testLib
     (testClient ''postgres'' (\<lambda>f. False) [(''GRANT'', duplicateKeyMessage)] testAttrs)
     ''postgres'' ''postgres'' emptyWorld = (None, emptyWorld)"
  using grantRoleMembership_duplicate_or_noop
          [of "testClient ''postgres'' (\<lambda>f. False) [(''GRANT'', duplicateKeyMessage)] testAttrs"
              emptyWorld testLib "''app_role''" "''postgres''" duplicateKeyMessage]
        grantRoleMembership_duplicate_or_noop
          [of "testClient ''postgres'' (\<lambda>f. False) [(''GRANT'', duplicateKeyMessage)] testAttrs"
              emptyWorld testLib "''postgres''" "''postgres''" duplicateKeyMessage]
  by (simp add: testClient_def testLib_def duplicateKeyMessage_def emptyWorld_def)

subsection \<open>Reading an absent database\<close>

text \<open>
  C8. When the catalog has no row for the identifier, Read returns no error, clears the
  identifier and changes nothing else of the resource data, and the one query that found
  no row is the only call it makes. Exists, on no row, answers false without an error.
\<close>

theorem read_not_found:
  "(fst (DB_QueryRow c (store w) nameOwnerSQL [SqlString (Id_rd d)]) = NoRows \<longrightarrow>
      resourcePostgreSQLDatabaseRead c d w =
        (None, SetId d [],
         \<lparr>store = snd (DB_QueryRow c (store w) nameOwnerSQL [SqlString (Id_rd d)]),
          calls = calls w @ [CallQueryRow nameOwnerSQL [SqlString (Id_rd d)]]\<rparr>)) \<and>
   (fst (DB_QueryRow c (store w) existsSQL [SqlString (Id_rd d)]) = NoRows \<longrightarrow>
      fst (resourcePostgreSQLDatabaseExists c d w) = (False, None))"
proof (intro conjI impI)
  assume "fst (DB_QueryRow c (store w) nameOwnerSQL [SqlString (Id_rd d)]) = NoRows"
  then show "resourcePostgreSQLDatabaseRead c d w =
        (None, SetId d [],
         \<lparr>store = snd (DB_QueryRow c (store w) nameOwnerSQL [SqlString (Id_rd d)]),
          calls = calls w @ [CallQueryRow nameOwnerSQL [SqlString (Id_rd d)]]\<rparr>)"
    by (cases "DB_QueryRow c (store w) nameOwnerSQL [SqlString (Id_rd d)]")
       (simp add: resourcePostgreSQLDatabaseRead_def resourcePostgreSQLDatabaseReadImpl_def
          QueryRow_def)
next
  assume "fst (DB_QueryRow c (store w) existsSQL [SqlString (Id_rd d)]) = NoRows"
  then show "fst (resourcePostgreSQLDatabaseExists c d w) = (False, None)"
    by (cases "DB_QueryRow c (store w) existsSQL [SqlString (Id_rd d)]")
       (simp add: resourcePostgreSQLDatabaseExists_def QueryRow_def)
qed

theorem read_not_found_witness:
  "fst (DB_QueryRow (testClient ''postgres'' (\<lambda>f. True) [] testAttrs) (store emptyWorld)
          nameOwnerSQL [SqlString (Id_rd (testData ''missing'' testAttrs testAttrs))]) = NoRows \<and>
   resourcePostgreSQLDatabaseRead (testClient ''postgres'' (\<lambda>f. True) [] testAttrs)
       (testData ''missing'' testAttrs testAttrs) emptyWorld =
     (None, SetId (testData ''missing'' testAttrs testAttrs) [],
      \<lparr>store = (), calls = [CallQueryRow nameOwnerSQL [SqlString ''missing'']]\<rparr>) \<and>
   fst (resourcePostgreSQLDatabaseExists (testClient ''postgres'' (\<lambda>f. True) [] testAttrs)
       (testData ''missing'' testAttrs testAttrs) emptyWorld) = (False, None)"
  using read_not_found
          [of "testClient ''postgres'' (\<lambda>f. True) [] testAttrs" emptyWorld
              "testData ''missing'' testAttrs testAttrs"]
  by (simp add: testClient_def testQuery_def testData_def testAttrs_def emptyWorld_def Id_rd_def)

subsection \<open>The owner clause of Create\<close>

text \<open>
  C10. When the desired owner is unset, the statement Create builds names the connecting
  user in its \<^verbatim>\<open>OWNER\<close> clause, right after the database name, and this statement is the
  first call Create makes.
\<close>

theorem create_default_owner:
  assumes "Get d dbOwnerAttr = []"
  shows "createSQL L c d =
           ''CREATE DATABASE '' @ QuoteIdentifier L (Get d dbNameAttr) @
           '' OWNER '' @ QuoteIdentifier L (config_Username c) @
           templateClause L d @ encodingClause L d @ collationClause L d @ ctypeClause L d @
           tablespaceClause L d @ allowConnsClause c d @ connLimitClause d @ isTemplateClause c d \<and>
         (\<exists>rest. calls (snd (snd (resourcePostgreSQLDatabaseCreate L c d w))) =
           calls w @ CallExec ExecCreate (createSQL L c d) [] # rest)"
proof
  show "createSQL L c d =
           ''CREATE DATABASE '' @ QuoteIdentifier L (Get d dbNameAttr) @
           '' OWNER '' @ QuoteIdentifier L (config_Username c) @
           templateClause L d @ encodingClause L d @ collationClause L d @ ctypeClause L d @
           tablespaceClause L d @ allowConnsClause c d @ connLimitClause d @ isTemplateClause c d"
    using assms by (simp add: createSQL_def ownerClause_def GetOk_def)
  show "\<exists>rest. calls (snd (snd (resourcePostgreSQLDatabaseCreate L c d w))) =
           calls w @ CallExec ExecCreate (createSQL L c d) [] # rest"
  proof (cases "Exec c ExecCreate (createSQL L c d) [] w")
    case (Pair r w2)
    have w2: "calls w2 = calls w @ [CallExec ExecCreate (createSQL L c d) []]"
      using calls_Exec[of c ExecCreate "createSQL L c d" "[]" w] Pair by simp
    show ?thesis
    proof (cases r)
      case (Some m)
      obtain cs where "calls (snd (deferredRevoke L c d w2)) = calls w2 @ cs"
        using deferredRevoke_calls[of L c d w2] by blast
      then show ?thesis
        using assms Pair Some w2
        by (simp add: resourcePostgreSQLDatabaseCreate_def grantRoleMembership_def)
    next
      case None
      obtain e d3 w3 where r3:
        "resourcePostgreSQLDatabaseReadImpl c (SetId d (Get d dbNameAttr)) w2 = (e, d3, w3)"
        by (cases "resourcePostgreSQLDatabaseReadImpl c (SetId d (Get d dbNameAttr)) w2") auto
      obtain cs where cs: "calls w3 = calls w2 @ cs"
        using ReadImpl_calls[of c "SetId d (Get d dbNameAttr)" w2] r3 by auto
      obtain cs' where "calls (snd (deferredRevoke L c d3 w3)) = calls w3 @ cs'"
        using deferredRevoke_calls[of L c d3 w3] by blast
      then show ?thesis
        using assms Pair None w2 r3 cs
        by (simp add: resourcePostgreSQLDatabaseCreate_def grantRoleMembership_def)
    qed
  qed
qed

theorem create_default_owner_witness:
  "Get (testData [] testAttrs (testAttrs\<lparr>dbOwnerAttr := []\<rparr>)) dbOwnerAttr = [] \<and>
   createSQL testLib (testClient ''postgres'' (\<lambda>f. False) [] testAttrs)
       (testData [] testAttrs (testAttrs\<lparr>dbOwnerAttr := []\<rparr>)) =
     ''CREATE DATABASE '' @ [CHR 0x22] @ ''app_db'' @ [CHR 0x22] @
     '' OWNER '' @ [CHR 0x22] @ ''postgres'' @ [CHR 0x22] @
     '' TEMPLATE '' @ [CHR 0x22] @ ''template0'' @ [CHR 0x22] @
     '' ENCODING 'UTF8' '' @ '' LC_COLLATE 'C' '' @ '' LC_CTYPE 'C' '' @
     '' TABLESPACE '' @ [CHR 0x22] @ ''pg_default'' @ [CHR 0x22] @
     '' CONNECTION LIMIT -1'' \<and>
   (\<exists>rest. calls (snd (snd (resourcePostgreSQLDatabaseCreate testLib
        (testClient ''postgres'' (\<lambda>f. False) [] testAttrs)
        (testData [] testAttrs (testAttrs\<lparr>dbOwnerAttr := []\<rparr>)) emptyWorld))) =
      calls emptyWorld @
      CallExec ExecCreate
        (createSQL testLib (testClient ''postgres'' (\<lambda>f. False) [] testAttrs)
           (testData [] testAttrs (testAttrs\<lparr>dbOwnerAttr := []\<rparr>))) [] # rest)"
proof -
  let ?c = "testClient ''postgres'' (\<lambda>f. False) [] testAttrs"
  let ?d = "testData [] testAttrs (testAttrs\<lparr>dbOwnerAttr := []\<rparr>)"
  have h: "Get ?d dbOwnerAttr = []"
    by (simp add: Get_def testData_def)
  note t = create_default_owner[OF h, of testLib ?c emptyWorld]
  have clauses:
    "QuoteIdentifier testLib (Get ?d dbNameAttr) = [CHR 0x22] @ ''app_db'' @ [CHR 0x22]"
    "QuoteIdentifier testLib (config_Username ?c) = [CHR 0x22] @ ''postgres'' @ [CHR 0x22]"
    "templateClause testLib ?d = '' TEMPLATE '' @ [CHR 0x22] @ ''template0'' @ [CHR 0x22]"
    "encodingClause testLib ?d = '' ENCODING 'UTF8' ''"
    "collationClause testLib ?d = '' LC_COLLATE 'C' ''"
    "ctypeClause testLib ?d = '' LC_CTYPE 'C' ''"
    "tablespaceClause testLib ?d = '' TABLESPACE '' @ [CHR 0x22] @ ''pg_default'' @ [CHR 0x22]"
    "allowConnsClause ?c ?d = []"
    "connLimitClause ?d = '' CONNECTION LIMIT -1''"
    "isTemplateClause ?c ?d = []"
    by (simp_all add: templateClause_def encodingClause_def collationClause_def ctypeClause_def
        tablespaceClause_def allowConnsClause_def connLimitClause_def isTemplateClause_def
        GetOk_def Get_def testData_def testAttrs_def testLib_def testClient_def upper_char_def
        fmt_int_def fmt_nat.simps)
  have sql: "createSQL testLib ?c ?d =
     ''CREATE DATABASE '' @ [CHR 0x22] @ ''app_db'' @ [CHR 0x22] @
     '' OWNER '' @ [CHR 0x22] @ ''postgres'' @ [CHR 0x22] @
     '' TEMPLATE '' @ [CHR 0x22] @ ''template0'' @ [CHR 0x22] @
     '' ENCODING 'UTF8' '' @ '' LC_COLLATE 'C' '' @ '' LC_CTYPE 'C' '' @
     '' TABLESPACE '' @ [CHR 0x22] @ ''pg_default'' @ [CHR 0x22] @
     '' CONNECTION LIMIT -1''"
    unfolding t[THEN conjunct1] clauses by simp
  show ?thesis
    by (intro conjI) (rule h, rule sql, rule t[THEN conjunct2])
qed

subsection \<open>Update without a change\<close>

text \<open>
  C4. When no attribute differs between the state and the desired configuration, every
  setter returns at once without an error and without touching the world, Update is the
  read that follows them, and the statements executed after Update are those executed
  before it: it executes none.
\<close>

theorem update_without_change:
  assumes "rd_old d = rd_new d"
  shows "setDBName L c d w = (None, d, w) \<and>
         setDBOwner L c d w = (None, w) \<and>
         setDBTablespace L c d w = (None, w) \<and>
         setDBConnLimit L c d w = (None, w) \<and>
         setDBAllowConns L c d w = (None, w) \<and>
         setDBIsTemplate L c d w = (None, w) \<and>
         resourcePostgreSQLDatabaseUpdate L c d w = resourcePostgreSQLDatabaseReadImpl c d w \<and>
         execs (calls (snd (snd (resourcePostgreSQLDatabaseUpdate L c d w)))) = execs (calls w)"
proof -
  have nc: "\<And>key. \<not> HasChange d key"
    using assms by (simp add: HasChange_def GetChange_def)
  have s: "setDBName L c d w = (None, d, w)" "setDBOwner L c d w = (None, w)"
    "setDBTablespace L c d w = (None, w)" "setDBConnLimit L c d w = (None, w)"
    "setDBAllowConns L c d w = (None, w)" "setDBIsTemplate L c d w = (None, w)"
    by (simp_all add: nc setDBName_def setDBOwner_def setDBTablespace_def setDBConnLimit_def
        setDBAllowConns_def setDBIsTemplate_def)
  have u: "resourcePostgreSQLDatabaseUpdate L c d w = resourcePostgreSQLDatabaseReadImpl c d w"
    by (simp add: resourcePostgreSQLDatabaseUpdate_def s)
  have "execs (calls (snd (snd (resourcePostgreSQLDatabaseReadImpl c d w)))) = execs (calls w)"
    using ReadImpl_calls[of c d w] by (auto simp: execs_append)
  with s u show ?thesis by simp
qed

theorem update_without_change_witness:
  "rd_old (testData ''app_db'' testAttrs testAttrs) = rd_new (testData ''app_db'' testAttrs testAttrs) \<and>
   execs (calls (snd (snd (resourcePostgreSQLDatabaseUpdate testLib
      (testClient ''postgres'' (\<lambda>f. True) [] testAttrs)
      (testData ''app_db'' testAttrs testAttrs) emptyWorld)))) = []"
proof -
  have h: "rd_old (testData ''app_db'' testAttrs testAttrs) =
           rd_new (testData ''app_db'' testAttrs testAttrs)"
    by (simp add: testData_def)
  have "execs (calls (snd (snd (resourcePostgreSQLDatabaseUpdate testLib
      (testClient ''postgres'' (\<lambda>f. True) [] testAttrs)
      (testData ''app_db'' testAttrs testAttrs) emptyWorld)))) = execs (calls emptyWorld)"
    using update_without_change[OF h, of testLib "testClient ''postgres'' (\<lambda>f. True) [] testAttrs" emptyWorld]
    by blast
  also have "\<dots> = []"
    by (simp add: emptyWorld_def)
  finally show ?thesis
    using h by blast
qed

subsection \<open>Deleting a template database\<close>

text \<open>
  C6. When the server supports \<^verbatim>\<open>IS_TEMPLATE\<close> and the flag of the resource is true, the
  first call of Delete is the statement that sets the flag to false; when Delete returns
  no error, further calls follow it and the last one is the \<^verbatim>\<open>DROP DATABASE\<close> statement.
\<close>

theorem delete_clears_template_first:
  assumes "featureSupported c featureDBIsTemplate" and "Get d dbIsTemplateAttr"
  shows "\<exists>rest. calls (snd (snd (resourcePostgreSQLDatabaseDelete L c d w))) =
           calls w @
           CallExec ExecIsTemplate
             (''ALTER DATABASE '' @ QuoteIdentifier L (Get d dbNameAttr) @ '' IS_TEMPLATE $1'')
             [SqlBool False] # rest \<and>
           (fst (resourcePostgreSQLDatabaseDelete L c d w) = None \<longrightarrow>
              rest \<noteq> [] \<and>
              last rest = CallExec ExecDrop (''DROP DATABASE '' @ QuoteIdentifier L (Get d dbNameAttr)) [])"
  using assms
  by (auto simp: resourcePostgreSQLDatabaseDelete_def doSetDBIsTemplate_def setDBIsTemplate_def
      Exec_def Let_def SetId_def split: prod.splits option.splits)

theorem delete_clears_template_first_witness:
  "featureSupported (testClient ''postgres'' (\<lambda>f. True) [] testAttrs) featureDBIsTemplate \<and>
   Get (testData ''app_db'' (testAttrs\<lparr>dbIsTemplateAttr := True\<rparr>)
          (testAttrs\<lparr>dbIsTemplateAttr := True\<rparr>)) dbIsTemplateAttr \<and>
   (\<exists>rest. calls (snd (snd (resourcePostgreSQLDatabaseDelete testLib
        (testClient ''postgres'' (\<lambda>f. True) [] testAttrs)
        (testData ''app_db'' (testAttrs\<lparr>dbIsTemplateAttr := True\<rparr>)
           (testAttrs\<lparr>dbIsTemplateAttr := True\<rparr>)) emptyWorld))) =
      CallExec ExecIsTemplate
        (''ALTER DATABASE '' @ QuoteIdentifier testLib ''app_db'' @ '' IS_TEMPLATE $1'')
        [SqlBool False] # rest \<and>
      rest \<noteq> [] \<and>
      last rest = CallExec ExecDrop (''DROP DATABASE '' @ QuoteIdentifier testLib ''app_db'') []) \<and>
   fst (resourcePostgreSQLDatabaseDelete testLib
        (testClient ''postgres'' (\<lambda>f. True) [] testAttrs)
        (testData ''app_db'' (testAttrs\<lparr>dbIsTemplateAttr := True\<rparr>)
           (testAttrs\<lparr>dbIsTemplateAttr := True\<rparr>)) emptyWorld) = None"
proof -
  let ?c = "testClient ''postgres'' (\<lambda>f. True) [] testAttrs"
  let ?d = "testData ''app_db'' (testAttrs\<lparr>dbIsTemplateAttr := True\<rparr>)
              (testAttrs\<lparr>dbIsTemplateAttr := True\<rparr>)"
  have h1: "featureSupported ?c featureDBIsTemplate"
    by (simp add: testClient_def)
  have h2: "Get ?d dbIsTemplateAttr"
    by (simp add: Get_def testData_def)
  have ok: "fst (resourcePostgreSQLDatabaseDelete testLib ?c ?d emptyWorld) = None"
    by (simp add: op_defs test_defs)
  have n: "Get ?d dbNameAttr = ''app_db''" "calls emptyWorld = []"
    by (simp_all add: Get_def testData_def testAttrs_def emptyWorld_def)
  show ?thesis
    using delete_clears_template_first[OF h1 h2, of testLib emptyWorld] h1 h2 ok
    unfolding n by auto
qed

subsection \<open>A failing revoke\<close>

text \<open>
  C1. The owner is \<open>app_role\<close>, the connection user \<open>postgres\<close>, and the store fails every
  \<^verbatim>\<open>REVOKE\<close> statement and nothing else. Create executes the grant, the
  \<^verbatim>\<open>CREATE DATABASE\<close> statement and the failing revoke, and returns no error. For the same
  client and a changed owner, \<open>setDBOwner\<close> executes the grant, the \<^verbatim>\<open>ALTER DATABASE\<close>
  statement and the failing revoke and returns no error, and so does Update.
\<close>

theorem revoke_failure_not_returned:
  "fst (DB_Exec (testClient ''postgres'' (\<lambda>f. False) [(''REVOKE'', ''permission denied'')] testAttrs) ()
          (''REVOKE '' @ QuoteIdentifier testLib ''app_role'' @ '' FROM '' @
           QuoteIdentifier testLib ''postgres'') []) = Some ''permission denied'' \<and>
   fst (resourcePostgreSQLDatabaseCreate testLib
          (testClient ''postgres'' (\<lambda>f. False) [(''REVOKE'', ''permission denied'')] testAttrs)
          (testData [] testAttrs testAttrs) emptyWorld) = None \<and>
   execs (calls (snd (snd (resourcePostgreSQLDatabaseCreate testLib
          (testClient ''postgres'' (\<lambda>f. False) [(''REVOKE'', ''permission denied'')] testAttrs)
          (testData [] testAttrs testAttrs) emptyWorld)))) =
     [(ExecGrant, ''GRANT '' @ QuoteIdentifier testLib ''app_role'' @ '' TO '' @
                  QuoteIdentifier testLib ''postgres'', []),
      (ExecCreate, createSQL testLib
          (testClient ''postgres'' (\<lambda>f. False) [(''REVOKE'', ''permission denied'')] testAttrs)
          (testData [] testAttrs testAttrs), []),
      (ExecRevoke, ''REVOKE '' @ QuoteIdentifier testLib ''app_role'' @ '' FROM '' @
                   QuoteIdentifier testLib ''postgres'', [])] \<and>
   setDBOwner testLib
       (testClient ''postgres'' (\<lambda>f. False) [(''REVOKE'', ''permission denied'')] testAttrs)
       (testData ''app_db'' (testAttrs\<lparr>dbOwnerAttr := ''postgres''\<rparr>) testAttrs) emptyWorld =
     (None,
      \<lparr>store = (),
       calls =
         [CallExec ExecGrant (''GRANT '' @ QuoteIdentifier testLib ''app_role'' @ '' TO '' @
                  QuoteIdentifier testLib ''postgres'') [],
          CallExec ExecOwner (''ALTER DATABASE '' @ QuoteIdentifier testLib ''app_db'' @
                  '' OWNER TO '' @ QuoteIdentifier testLib ''app_role'') [],
          CallExec ExecRevoke (''REVOKE '' @ QuoteIdentifier testLib ''app_role'' @ '' FROM '' @
                   QuoteIdentifier testLib ''postgres'') []]\<rparr>) \<and>
   fst (resourcePostgreSQLDatabaseUpdate testLib
       (testClient ''postgres'' (\<lambda>f. False) [(''REVOKE'', ''permission denied'')] testAttrs)
       (testData ''app_db'' (testAttrs\<lparr>dbOwnerAttr := ''postgres''\<rparr>) testAttrs) emptyWorld) = None"
  by (simp add: create_defs op_defs test_defs)

subsection \<open>Capability gating\<close>

lemma setDBAllowConns_unsupported:
  "\<not> featureSupported c featureDBAllowConnections \<Longrightarrow> HasChange d dbAllowConnsAttr \<Longrightarrow>
   setDBAllowConns L c d w =
     (Some (Errorf
        ''PostgreSQL client is talking with a server (%q) that does not support database ALLOW_CONNECTIONS''
        [version_String c]), w)"
  by (simp add: setDBAllowConns_def)

lemma setDBIsTemplate_unsupported:
  "\<not> featureSupported c featureDBIsTemplate \<Longrightarrow> HasChange d dbIsTemplateAttr \<Longrightarrow>
   setDBIsTemplate L c d w =
     (Some (Wrapf ''Error updating database IS_TEMPLATE: {{err}}'' []
        (Errorf
          ''PostgreSQL client is talking with a server (%q) that does not support database IS_TEMPLATE''
          [version_String c])), w)"
  by (simp add: setDBIsTemplate_def doSetDBIsTemplate_def)

lemma Update_gated_error:
  assumes "(\<not> featureSupported c featureDBAllowConnections \<and> HasChange d dbAllowConnsAttr) \<or>
           (\<not> featureSupported c featureDBIsTemplate \<and> HasChange d dbIsTemplateAttr)"
  shows "fst (resourcePostgreSQLDatabaseUpdate L c d w) \<noteq> None"
proof -
  obtain e1 d1 w1 where s1: "setDBName L c d w = (e1, d1, w1)"
    by (cases "setDBName L c d w") auto
  have dd: "\<And>key. HasChange d1 key = HasChange d key"
    using setDBName_data[of L c d w] s1 by (simp add: HasChange_def GetChange_def)
  show ?thesis
    using assms s1
    by (auto simp: resourcePostgreSQLDatabaseUpdate_def dd setDBAllowConns_unsupported
        setDBIsTemplate_unsupported split: prod.splits option.splits)
qed

text \<open>
  C2, as the code has it. When the server lacks \<^verbatim>\<open>ALLOW_CONNECTIONS\<close>, the statement
  Create builds has no clause for the attribute; when moreover the attribute has changed,
  its setter returns the unsupported-feature error and leaves the world as it was, and
  Update returns an error. The same holds for \<^verbatim>\<open>IS_TEMPLATE\<close>, whose setter wraps the
  unsupported-feature error. Whatever has changed, Update executes no statement of a gated
  attribute whose capability is absent.
\<close>

theorem capability_gating:
  "(\<not> featureSupported c featureDBAllowConnections \<longrightarrow>
      createSQL L c d =
        ''CREATE DATABASE '' @ QuoteIdentifier L (Get d dbNameAttr) @
        ownerClause L c d @ templateClause L d @ encodingClause L d @ collationClause L d @
        ctypeClause L d @ tablespaceClause L d @ connLimitClause d @ isTemplateClause c d \<and>
      (HasChange d dbAllowConnsAttr \<longrightarrow>
         setDBAllowConns L c d w =
           (Some (Errorf
              ''PostgreSQL client is talking with a server (%q) that does not support database ALLOW_CONNECTIONS''
              [version_String c]), w) \<and>
         fst (resourcePostgreSQLDatabaseUpdate L c d w) \<noteq> None)) \<and>
   (\<not> featureSupported c featureDBIsTemplate \<longrightarrow>
      createSQL L c d =
        ''CREATE DATABASE '' @ QuoteIdentifier L (Get d dbNameAttr) @
        ownerClause L c d @ templateClause L d @ encodingClause L d @ collationClause L d @
        ctypeClause L d @ tablespaceClause L d @ allowConnsClause c d @ connLimitClause d \<and>
      (HasChange d dbIsTemplateAttr \<longrightarrow>
         setDBIsTemplate L c d w =
           (Some (Wrapf ''Error updating database IS_TEMPLATE: {{err}}'' []
              (Errorf
                ''PostgreSQL client is talking with a server (%q) that does not support database IS_TEMPLATE''
                [version_String c])), w) \<and>
         fst (resourcePostgreSQLDatabaseUpdate L c d w) \<noteq> None)) \<and>
   (\<exists>cs. calls (snd (snd (resourcePostgreSQLDatabaseUpdate L c d w))) = calls w @ cs \<and>
      (\<not> featureSupported c featureDBAllowConnections \<longrightarrow> ExecAllowConns \<notin> fst ` set (execs cs)) \<and>
      (\<not> featureSupported c featureDBIsTemplate \<longrightarrow> ExecIsTemplate \<notin> fst ` set (execs cs)))"
proof (intro conjI impI)
  assume "\<not> featureSupported c featureDBAllowConnections"
  then show "createSQL L c d =
        ''CREATE DATABASE '' @ QuoteIdentifier L (Get d dbNameAttr) @
        ownerClause L c d @ templateClause L d @ encodingClause L d @ collationClause L d @
        ctypeClause L d @ tablespaceClause L d @ connLimitClause d @ isTemplateClause c d"
    by (simp add: createSQL_def allowConnsClause_def)
next
  assume "\<not> featureSupported c featureDBAllowConnections" and "HasChange d dbAllowConnsAttr"
  then show "setDBAllowConns L c d w =
           (Some (Errorf
              ''PostgreSQL client is talking with a server (%q) that does not support database ALLOW_CONNECTIONS''
              [version_String c]), w)"
    by (rule setDBAllowConns_unsupported)
next
  assume "\<not> featureSupported c featureDBAllowConnections" and "HasChange d dbAllowConnsAttr"
  then show "fst (resourcePostgreSQLDatabaseUpdate L c d w) \<noteq> None"
    by (intro Update_gated_error) simp
next
  assume "\<not> featureSupported c featureDBIsTemplate"
  then show "createSQL L c d =
        ''CREATE DATABASE '' @ QuoteIdentifier L (Get d dbNameAttr) @
        ownerClause L c d @ templateClause L d @ encodingClause L d @ collationClause L d @
        ctypeClause L d @ tablespaceClause L d @ allowConnsClause c d @ connLimitClause d"
    by (simp add: createSQL_def isTemplateClause_def)
next
  assume "\<not> featureSupported c featureDBIsTemplate" and "HasChange d dbIsTemplateAttr"
  then show "setDBIsTemplate L c d w =
           (Some (Wrapf ''Error updating database IS_TEMPLATE: {{err}}'' []
              (Errorf
                ''PostgreSQL client is talking with a server (%q) that does not support database IS_TEMPLATE''
                [version_String c])), w)"
    by (rule setDBIsTemplate_unsupported)
next
  assume "\<not> featureSupported c featureDBIsTemplate" and "HasChange d dbIsTemplateAttr"
  then show "fst (resourcePostgreSQLDatabaseUpdate L c d w) \<noteq> None"
    by (intro Update_gated_error) simp
next
  let ?X = "{e. (fst e = ExecAllowConns \<longrightarrow> featureSupported c featureDBAllowConnections) \<and>
                (fst e = ExecIsTemplate \<longrightarrow> featureSupported c featureDBIsTemplate)}"
  have "emits ?X w (snd (snd (resourcePostgreSQLDatabaseUpdate L c d w)))"
    by (rule emits_trans[OF Update_emits(1) Update_emits(2)]) simp_all
  then obtain cs where cs: "calls (snd (snd (resourcePostgreSQLDatabaseUpdate L c d w))) = calls w @ cs"
    and X: "set (execs cs) \<subseteq> ?X"
    unfolding emits_iff by blast
  from X have "\<not> featureSupported c featureDBAllowConnections \<longrightarrow> ExecAllowConns \<notin> fst ` set (execs cs)"
    and "\<not> featureSupported c featureDBIsTemplate \<longrightarrow> ExecIsTemplate \<notin> fst ` set (execs cs)"
    by auto
  with cs show "\<exists>cs. calls (snd (snd (resourcePostgreSQLDatabaseUpdate L c d w))) = calls w @ cs \<and>
      (\<not> featureSupported c featureDBAllowConnections \<longrightarrow> ExecAllowConns \<notin> fst ` set (execs cs)) \<and>
      (\<not> featureSupported c featureDBIsTemplate \<longrightarrow> ExecIsTemplate \<notin> fst ` set (execs cs))"
    by blast
qed

text \<open>Update on a server without either capability, each gated attribute changed in turn.\<close>

theorem capability_gating_witness:
  "\<not> featureSupported (testClient ''postgres'' (\<lambda>f. False) [] testAttrs) featureDBAllowConnections \<and>
   \<not> featureSupported (testClient ''postgres'' (\<lambda>f. False) [] testAttrs) featureDBIsTemplate \<and>
   HasChange (testData ''app_db'' testAttrs (testAttrs\<lparr>dbAllowConnsAttr := False\<rparr>)) dbAllowConnsAttr \<and>
   HasChange (testData ''app_db'' testAttrs (testAttrs\<lparr>dbIsTemplateAttr := True\<rparr>)) dbIsTemplateAttr \<and>
   setDBAllowConns testLib (testClient ''postgres'' (\<lambda>f. False) [] testAttrs)
       (testData ''app_db'' testAttrs (testAttrs\<lparr>dbAllowConnsAttr := False\<rparr>)) emptyWorld =
     (Some (Errorf
        ''PostgreSQL client is talking with a server (%q) that does not support database ALLOW_CONNECTIONS''
        [''9.4.0'']), emptyWorld) \<and>
   fst (resourcePostgreSQLDatabaseUpdate testLib (testClient ''postgres'' (\<lambda>f. False) [] testAttrs)
       (testData ''app_db'' testAttrs (testAttrs\<lparr>dbAllowConnsAttr := False\<rparr>)) emptyWorld) \<noteq> None \<and>
   setDBIsTemplate testLib (testClient ''postgres'' (\<lambda>f. False) [] testAttrs)
       (testData ''app_db'' testAttrs (testAttrs\<lparr>dbIsTemplateAttr := True\<rparr>)) emptyWorld =
     (Some (Wrapf ''Error updating database IS_TEMPLATE: {{err}}'' []
        (Errorf
          ''PostgreSQL client is talking with a server (%q) that does not support database IS_TEMPLATE''
          [''9.4.0''])), emptyWorld) \<and>
   fst (resourcePostgreSQLDatabaseUpdate testLib (testClient ''postgres'' (\<lambda>f. False) [] testAttrs)
       (testData ''app_db'' testAttrs (testAttrs\<lparr>dbIsTemplateAttr := True\<rparr>)) emptyWorld) \<noteq> None"
proof -
  let ?c = "testClient ''postgres'' (\<lambda>f. False) [] testAttrs"
  let ?d1 = "testData ''app_db'' testAttrs (testAttrs\<lparr>dbAllowConnsAttr := False\<rparr>)"
  let ?d2 = "testData ''app_db'' testAttrs (testAttrs\<lparr>dbIsTemplateAttr := True\<rparr>)"
  have f: "\<not> featureSupported ?c featureDBAllowConnections" "\<not> featureSupported ?c featureDBIsTemplate"
    by (simp_all add: testClient_def)
  have h: "HasChange ?d1 dbAllowConnsAttr" "HasChange ?d2 dbIsTemplateAttr"
    by (simp_all add: HasChange_def GetChange_def testData_def testAttrs_def)
  have v: "version_String ?c = ''9.4.0''"
    by (simp add: testClient_def)
  show ?thesis
    using capability_gating[of ?c testLib ?d1 emptyWorld]
          capability_gating[of ?c testLib ?d2 emptyWorld] f h
    unfolding v by blast
qed

text \<open>
  Create on a server without either capability, with allow-connections false and
  is-template true in the desired configuration: it returns no error.
\<close>

theorem create_without_capability_counterexample:
  "\<not> featureSupported (testClient ''postgres'' (\<lambda>f. False) []
         (testAttrs\<lparr>dbAllowConnsAttr := False, dbIsTemplateAttr := True\<rparr>)) featureDBAllowConnections \<and>
   \<not> featureSupported (testClient ''postgres'' (\<lambda>f. False) []
         (testAttrs\<lparr>dbAllowConnsAttr := False, dbIsTemplateAttr := True\<rparr>)) featureDBIsTemplate \<and>
   Get (testData [] testAttrs (testAttrs\<lparr>dbAllowConnsAttr := False, dbIsTemplateAttr := True\<rparr>))
     dbAllowConnsAttr = False \<and>
   Get (testData [] testAttrs (testAttrs\<lparr>dbAllowConnsAttr := False, dbIsTemplateAttr := True\<rparr>))
     dbIsTemplateAttr = True \<and>
   fst (resourcePostgreSQLDatabaseCreate testLib
      (testClient ''postgres'' (\<lambda>f. False) []
         (testAttrs\<lparr>dbAllowConnsAttr := False, dbIsTemplateAttr := True\<rparr>))
      (testData [] testAttrs (testAttrs\<lparr>dbAllowConnsAttr := False, dbIsTemplateAttr := True\<rparr>))
      emptyWorld) = None"
  by (simp add: create_defs op_defs test_defs)

subsection \<open>Passing the connection limit\<close>

lemma Create_emits:
  assumes gr: "(ExecGrant, ''GRANT '' @ QuoteIdentifier L (Get d dbOwnerAttr) @ '' TO '' @
              QuoteIdentifier L (config_Username c), []) \<in> X"
    and cr: "(ExecCreate, createSQL L c d, []) \<in> X"
    and rv: "\<And>sql. (ExecRevoke, sql, []) \<in> X"
  shows "emits X w (snd (snd (resourcePostgreSQLDatabaseCreate L c d w)))"
proof -
  obtain e1 w1 where s1: "grantRoleMembership L c (Get d dbOwnerAttr) (config_Username c) w = (e1, w1)"
    by (cases "grantRoleMembership L c (Get d dbOwnerAttr) (config_Username c) w") auto
  have m1: "emits X w w1"
    using emits_grant[of L "Get d dbOwnerAttr" "config_Username c" X w c] gr s1 by simp
  obtain e2 w2 where s2: "Exec c ExecCreate (createSQL L c d) [] w1 = (e2, w2)"
    by (cases "Exec c ExecCreate (createSQL L c d) [] w1") auto
  have m2: "emits X w w2"
    using emits_Exec_eq[OF s2 cr] m1 by (blast intro: emits_trans)
  have m3: "emits X w (snd (deferredRevoke L c d w2))"
    using emits_deferredRevoke[of L d c X w2] rv m2 by (blast intro: emits_trans)
  obtain e4 d4 w4 where s4:
    "resourcePostgreSQLDatabaseReadImpl c (SetId d (Get d dbNameAttr)) w2 = (e4, d4, w4)"
    by (cases "resourcePostgreSQLDatabaseReadImpl c (SetId d (Get d dbNameAttr)) w2") auto
  have m4: "emits X w w4"
    using emits_ReadImpl[of X w2 c "SetId d (Get d dbNameAttr)"] s4 m2 by (auto intro: emits_trans)
  have m5: "emits X w (snd (deferredRevoke L c d4 w4))"
    using emits_deferredRevoke[of L d4 c X w4] rv m4 by (blast intro: emits_trans)
  show ?thesis
    using s1 s2 s4 m1 m3 m5
    by (simp add: resourcePostgreSQLDatabaseCreate_def Let_def split: option.split)
qed

text \<open>
  C7, as the code has it. The setter of the connection limit, when the limit has changed,
  executes one statement whose text ends in the placeholder \<^verbatim>\<open>$1\<close> and whose only bound
  value is the limit; every connection-limit statement Update executes is this one. Create
  writes the limit in decimal into the text of its statement, and executes that statement
  with no bound value.
\<close>

theorem connection_limit_passing:
  "(HasChange d dbConnLimitAttr \<longrightarrow>
      calls (snd (setDBConnLimit L c d w)) =
        calls w @
        [CallExec ExecConnLimit
           (''ALTER DATABASE '' @ QuoteIdentifier L (Get d dbNameAttr) @ '' CONNECTION LIMIT = $1'')
           [SqlInt (Get d dbConnLimitAttr)]]) \<and>
   (\<exists>cs. calls (snd (snd (resourcePostgreSQLDatabaseUpdate L c d w))) = calls w @ cs \<and>
      (\<forall>e \<in> set (execs cs). fst e = ExecConnLimit \<longrightarrow>
         e = (ExecConnLimit,
              ''ALTER DATABASE '' @ QuoteIdentifier L (Get d dbNameAttr) @ '' CONNECTION LIMIT = $1'',
              [SqlInt (Get d dbConnLimitAttr)]))) \<and>
   createSQL L c d =
     (''CREATE DATABASE '' @ QuoteIdentifier L (Get d dbNameAttr) @
      ownerClause L c d @ templateClause L d @ encodingClause L d @ collationClause L d @
      ctypeClause L d @ tablespaceClause L d @ allowConnsClause c d) @
     '' CONNECTION LIMIT '' @ fmt_int (Get d dbConnLimitAttr) @ isTemplateClause c d \<and>
   (\<exists>cs. calls (snd (snd (resourcePostgreSQLDatabaseCreate L c d w))) = calls w @ cs \<and>
      (\<forall>e \<in> set (execs cs). fst e = ExecCreate \<longrightarrow> e = (ExecCreate, createSQL L c d, [])))"
proof (intro conjI impI)
  assume "HasChange d dbConnLimitAttr"
  then show "calls (snd (setDBConnLimit L c d w)) =
        calls w @
        [CallExec ExecConnLimit
           (''ALTER DATABASE '' @ QuoteIdentifier L (Get d dbNameAttr) @ '' CONNECTION LIMIT = $1'')
           [SqlInt (Get d dbConnLimitAttr)]]"
    by (auto simp: setDBConnLimit_def Exec_def Let_def split: prod.splits option.splits)
next
  let ?e = "(ExecConnLimit,
              ''ALTER DATABASE '' @ QuoteIdentifier L (Get d dbNameAttr) @ '' CONNECTION LIMIT = $1'',
              [SqlInt (Get d dbConnLimitAttr)])"
  let ?X = "{e. fst e = ExecConnLimit \<longrightarrow> e = ?e}"
  have "emits ?X w (snd (snd (resourcePostgreSQLDatabaseUpdate L c d w)))"
    by (rule emits_trans[OF Update_emits(1) Update_emits(2)]) simp_all
  then show "\<exists>cs. calls (snd (snd (resourcePostgreSQLDatabaseUpdate L c d w))) = calls w @ cs \<and>
      (\<forall>e \<in> set (execs cs). fst e = ExecConnLimit \<longrightarrow> e = ?e)"
    unfolding emits_iff by blast
next
  show "createSQL L c d =
     (''CREATE DATABASE '' @ QuoteIdentifier L (Get d dbNameAttr) @
      ownerClause L c d @ templateClause L d @ encodingClause L d @ collationClause L d @
      ctypeClause L d @ tablespaceClause L d @ allowConnsClause c d) @
     '' CONNECTION LIMIT '' @ fmt_int (Get d dbConnLimitAttr) @ isTemplateClause c d"
    by (simp add: createSQL_def connLimitClause_def)
next
  let ?X = "{e. fst e = ExecCreate \<longrightarrow> e = (ExecCreate, createSQL L c d, [])}"
  have "emits ?X w (snd (snd (resourcePostgreSQLDatabaseCreate L c d w)))"
    by (rule Create_emits) simp_all
  then show "\<exists>cs. calls (snd (snd (resourcePostgreSQLDatabaseCreate L c d w))) = calls w @ cs \<and>
      (\<forall>e \<in> set (execs cs). fst e = ExecCreate \<longrightarrow> e = (ExecCreate, createSQL L c d, []))"
    unfolding emits_iff by blast
qed

text \<open>An Update that changes only the connection limit, from \<open>-1\<close> to \<open>50\<close>.\<close>

theorem connection_limit_passing_witness:
  "HasChange (testData ''app_db'' testAttrs (testAttrs\<lparr>dbConnLimitAttr := 50\<rparr>)) dbConnLimitAttr \<and>
   calls (snd (setDBConnLimit testLib (testClient ''postgres'' (\<lambda>f. True) [] testAttrs)
       (testData ''app_db'' testAttrs (testAttrs\<lparr>dbConnLimitAttr := 50\<rparr>)) emptyWorld)) =
     [CallExec ExecConnLimit
        (''ALTER DATABASE '' @ QuoteIdentifier testLib ''app_db'' @ '' CONNECTION LIMIT = $1'')
        [SqlInt 50]] \<and>
   execs (calls (snd (snd (resourcePostgreSQLDatabaseUpdate testLib
       (testClient ''postgres'' (\<lambda>f. True) [] testAttrs)
       (testData ''app_db'' testAttrs (testAttrs\<lparr>dbConnLimitAttr := 50\<rparr>)) emptyWorld)))) =
     [(ExecConnLimit,
       ''ALTER DATABASE '' @ QuoteIdentifier testLib ''app_db'' @ '' CONNECTION LIMIT = $1'',
       [SqlInt 50])]"
proof -
  let ?c = "testClient ''postgres'' (\<lambda>f. True) [] testAttrs"
  let ?d = "testData ''app_db'' testAttrs (testAttrs\<lparr>dbConnLimitAttr := 50\<rparr>)"
  have h: "HasChange ?d dbConnLimitAttr"
    by (simp add: HasChange_def GetChange_def testData_def testAttrs_def)
  have g: "Get ?d dbNameAttr = ''app_db''" "Get ?d dbConnLimitAttr = 50" "calls emptyWorld = []"
    by (simp_all add: Get_def testData_def testAttrs_def emptyWorld_def)
  have u: "execs (calls (snd (snd (resourcePostgreSQLDatabaseUpdate testLib ?c ?d emptyWorld)))) =
     [(ExecConnLimit,
       ''ALTER DATABASE '' @ QuoteIdentifier testLib ''app_db'' @ '' CONNECTION LIMIT = $1'',
       [SqlInt 50])]"
    by (simp add: create_defs op_defs test_defs)
  show ?thesis
    using connection_limit_passing[of ?d testLib ?c emptyWorld] h u
    unfolding g by simp
qed

text \<open>
  Create with a connection limit of \<open>50\<close>: the one statement it executes has the limit in
  its text and no bound value.
\<close>

theorem create_interpolates_limit_counterexample:
  "execs (calls (snd (snd (resourcePostgreSQLDatabaseCreate testLib
      (testClient ''postgres'' (\<lambda>f. False) [] (testAttrs\<lparr>dbOwnerAttr := ''postgres'', dbConnLimitAttr := 50\<rparr>))
      (testData [] testAttrs (testAttrs\<lparr>dbOwnerAttr := ''postgres'', dbConnLimitAttr := 50\<rparr>))
      emptyWorld)))) =
     [(ExecCreate,
       ''CREATE DATABASE '' @ [CHR 0x22] @ ''app_db'' @ [CHR 0x22] @
       '' OWNER '' @ [CHR 0x22] @ ''postgres'' @ [CHR 0x22] @
       '' TEMPLATE '' @ [CHR 0x22] @ ''template0'' @ [CHR 0x22] @
       '' ENCODING 'UTF8' '' @ '' LC_COLLATE 'C' '' @ '' LC_CTYPE 'C' '' @
       '' TABLESPACE '' @ [CHR 0x22] @ ''pg_default'' @ [CHR 0x22] @
       '' CONNECTION LIMIT 50'',
       [])]"
  by (simp add: create_defs op_defs test_defs)

subsection \<open>Rename before the change of owner\<close>

lemma setDBOwner_success:
  assumes r: "setDBOwner L c d w = (None, w2)"
    and h: "HasChange d dbOwnerAttr" "Get d dbOwnerAttr \<noteq> []"
  shows "\<exists>cs. calls w2 = calls w @ cs \<and>
           (ExecOwner, ''ALTER DATABASE '' @ QuoteIdentifier L (Get d dbNameAttr) @ '' OWNER TO '' @
              QuoteIdentifier L (Get d dbOwnerAttr), []) \<in> set (execs cs)"
proof -
  let ?sql = "''ALTER DATABASE '' @ QuoteIdentifier L (Get d dbNameAttr) @ '' OWNER TO '' @
              QuoteIdentifier L (Get d dbOwnerAttr)"
  obtain e1 w1 where s1: "grantRoleMembership L c (Get d dbOwnerAttr) (config_Username c) w = (e1, w1)"
    by (cases "grantRoleMembership L c (Get d dbOwnerAttr) (config_Username c) w") auto
  obtain cs1 where c1: "calls w1 = calls w @ cs1"
    using grantRoleMembership_calls[of L c "Get d dbOwnerAttr" "config_Username c" w] s1 by auto
  obtain e2 w3 where s2: "Exec c ExecOwner ?sql [] w1 = (e2, w3)"
    by (cases "Exec c ExecOwner ?sql [] w1") auto
  have c2: "calls w3 = calls w1 @ [CallExec ExecOwner ?sql []]"
    using calls_Exec[of c ExecOwner ?sql "[]" w1] s2 by simp
  obtain cs3 where c3: "calls (snd (deferredRevoke L c d w3)) = calls w3 @ cs3"
    using deferredRevoke_calls[of L c d w3] by blast
  have "e1 = None \<and> e2 = None \<and> w2 = snd (deferredRevoke L c d w3)"
    using r h s1 s2 by (auto simp: setDBOwner_def Let_def split: option.splits)
  then have "calls w2 = calls w @ (cs1 @ CallExec ExecOwner ?sql [] # cs3)"
    using c1 c2 c3 by simp
  moreover have "(ExecOwner, ?sql, []) \<in> set (execs (cs1 @ CallExec ExecOwner ?sql [] # cs3))"
    by (simp add: execs_append)
  ultimately show ?thesis by blast
qed

lemma Update_after_owner:
  assumes s1: "setDBName L c d w = (None, d1, w1)"
    and s2: "setDBOwner L c d1 w1 = (None, w2)"
  shows "\<exists>cs. calls (snd (snd (resourcePostgreSQLDatabaseUpdate L c d w))) = calls w2 @ cs"
proof -
  obtain e3 w3 where s3: "setDBTablespace L c d1 w2 = (e3, w3)"
    by (cases "setDBTablespace L c d1 w2") auto
  have m3: "emits UNIV w2 w3"
    using emits_setDBTablespace[of UNIV w2 L c d1] s3 by simp
  obtain e4 w4 where s4: "setDBConnLimit L c d1 w3 = (e4, w4)"
    by (cases "setDBConnLimit L c d1 w3") auto
  have m4: "emits UNIV w2 w4"
    using emits_setDBConnLimit[of L d1 UNIV w3 c] s4 m3 by (auto intro: emits_trans)
  obtain e5 w5 where s5: "setDBAllowConns L c d1 w4 = (e5, w5)"
    by (cases "setDBAllowConns L c d1 w4") auto
  have m5: "emits UNIV w2 w5"
    using emits_setDBAllowConns[of c L d1 UNIV w4] s5 m4 by (auto intro: emits_trans)
  obtain e6 w6 where s6: "setDBIsTemplate L c d1 w5 = (e6, w6)"
    by (cases "setDBIsTemplate L c d1 w5") auto
  have m6: "emits UNIV w2 w6"
    using emits_setDBIsTemplate[of c L d1 UNIV w5] s6 m5 by (auto intro: emits_trans)
  have m7: "emits UNIV w2 (snd (snd (resourcePostgreSQLDatabaseReadImpl c d1 w6)))"
    using emits_ReadImpl[of UNIV w6 c d1] m6 by (auto intro: emits_trans)
  have "emits UNIV w2 (snd (snd (resourcePostgreSQLDatabaseUpdate L c d w)))"
    using s1 s2 s3 s4 s5 s6 m3 m4 m5 m6 m7
    by (simp add: resourcePostgreSQLDatabaseUpdate_def split: option.split)
  then show ?thesis
    unfolding emits_iff by blast
qed

text \<open>
  C5. Name and owner have both changed, and no \<^verbatim>\<open>Set\<close> has replaced the new name. When
  the new name is empty Update executes nothing. Otherwise the first statement Update
  executes is the rename; every \<^verbatim>\<open>OWNER TO\<close> statement among the statements after it names
  the database by its new name; and when Update returns no error and the new owner is not
  empty, that \<^verbatim>\<open>OWNER TO\<close> statement is among the statements after the rename.
\<close>

theorem rename_before_owner:
  assumes hn: "HasChange d dbNameAttr" and ho: "HasChange d dbOwnerAttr"
    and g: "Get d dbNameAttr = snd (GetChange d dbNameAttr)"
  shows "\<exists>cs. calls (snd (snd (resourcePostgreSQLDatabaseUpdate L c d w))) = calls w @ cs \<and>
           (if snd (GetChange d dbNameAttr) = [] then execs cs = []
            else (\<exists>rest. execs cs =
               (ExecRename,
                ''ALTER DATABASE '' @ QuoteIdentifier L (fst (GetChange d dbNameAttr)) @
                '' RENAME TO '' @ QuoteIdentifier L (snd (GetChange d dbNameAttr)), []) # rest \<and>
               (\<forall>e \<in> set rest. fst e = ExecOwner \<longrightarrow>
                  e = (ExecOwner,
                       ''ALTER DATABASE '' @ QuoteIdentifier L (snd (GetChange d dbNameAttr)) @
                       '' OWNER TO '' @ QuoteIdentifier L (Get d dbOwnerAttr), [])) \<and>
               (fst (resourcePostgreSQLDatabaseUpdate L c d w) = None \<and> Get d dbOwnerAttr \<noteq> [] \<longrightarrow>
                  (ExecOwner,
                   ''ALTER DATABASE '' @ QuoteIdentifier L (snd (GetChange d dbNameAttr)) @
                   '' OWNER TO '' @ QuoteIdentifier L (Get d dbOwnerAttr), []) \<in> set rest)))"
proof (cases "snd (GetChange d dbNameAttr) = []")
  case True
  then have "setDBName L c d w =
    (Some (Errorf ''Error setting database name to an empty string'' []), d, w)"
    using hn by (cases "GetChange d dbNameAttr") (simp add: setDBName_def)
  then have "resourcePostgreSQLDatabaseUpdate L c d w =
    (Some (Errorf ''Error setting database name to an empty string'' []), d, w)"
    by (simp add: resourcePostgreSQLDatabaseUpdate_def)
  then show ?thesis using True by simp
next
  case False
  let ?rn = "''ALTER DATABASE '' @ QuoteIdentifier L (fst (GetChange d dbNameAttr)) @
                '' RENAME TO '' @ QuoteIdentifier L (snd (GetChange d dbNameAttr))"
  let ?ow = "(ExecOwner,
                       ''ALTER DATABASE '' @ QuoteIdentifier L (snd (GetChange d dbNameAttr)) @
                       '' OWNER TO '' @ QuoteIdentifier L (Get d dbOwnerAttr), [])"
  let ?w' = "snd (snd (resourcePostgreSQLDatabaseUpdate L c d w))"
  obtain r w1 where ex: "Exec c ExecRename ?rn [] w = (r, w1)"
    by (cases "Exec c ExecRename ?rn [] w") auto
  have c1: "calls w1 = calls w @ [CallExec ExecRename ?rn []]"
    using calls_Exec[of c ExecRename ?rn "[]" w] ex by simp
  have sn: "setDBName L c d w =
      (case r of Some m \<Rightarrow> (Some (Wrapf ''Error updating database name: {{err}}'' [] (DriverError m)), d, w1)
       | None \<Rightarrow> (None, SetId d (snd (GetChange d dbNameAttr)), w1))"
    using hn False ex by (simp add: setDBName_def Let_def case_prod_beta split: option.splits)
  then have w1: "snd (snd (setDBName L c d w)) = w1"
    by (simp split: option.splits)
  let ?X = "{e. fst e = ExecOwner \<longrightarrow> e = ?ow}"
  have "emits ?X w1 ?w'"
    using Update_emits(2)[of L d ?X c w] by (simp add: w1 g)
  then obtain cs2 where c2: "calls ?w' = calls w1 @ cs2" and x2: "set (execs cs2) \<subseteq> ?X"
    unfolding emits_iff by blast
  have pos: "?ow \<in> set (execs cs2)"
    if ok: "fst (resourcePostgreSQLDatabaseUpdate L c d w) = None" and ne: "Get d dbOwnerAttr \<noteq> []"
  proof -
    let ?d1 = "SetId d (snd (GetChange d dbNameAttr))"
    have r: "r = None"
      using ok sn by (auto simp: resourcePostgreSQLDatabaseUpdate_def split: option.splits)
    then have s1: "setDBName L c d w = (None, ?d1, w1)"
      using sn by simp
    obtain e2 w2 where s2: "setDBOwner L c ?d1 w1 = (e2, w2)"
      by (cases "setDBOwner L c ?d1 w1") auto
    have e2: "e2 = None"
      using ok s1 s2 by (auto simp: resourcePostgreSQLDatabaseUpdate_def split: option.splits)
    have d1: "HasChange ?d1 dbOwnerAttr" "Get ?d1 dbOwnerAttr \<noteq> []"
      "Get ?d1 dbOwnerAttr = Get d dbOwnerAttr" "Get ?d1 dbNameAttr = snd (GetChange d dbNameAttr)"
      using ho ne g by (simp_all add: HasChange_def GetChange_def Get_def SetId_def)
    obtain csO where cO: "calls w2 = calls w1 @ csO" and inO: "?ow \<in> set (execs csO)"
      using setDBOwner_success[OF s2[unfolded e2] d1(1,2), of] unfolding d1(3,4) by blast
    obtain cs3 where c3: "calls ?w' = calls w2 @ cs3"
      using Update_after_owner[OF s1 s2[unfolded e2]] by blast
    have "cs2 = csO @ cs3"
      using c2 c3 cO by simp
    then show ?thesis
      using inO by (simp add: execs_append)
  qed
  have all: "calls ?w' = calls w @ (CallExec ExecRename ?rn [] # cs2)"
    using c1 c2 by simp
  have bound: "\<forall>e \<in> set (execs cs2). fst e = ExecOwner \<longrightarrow> e = ?ow"
    using x2 by blast
  have main: "\<exists>rest. execs (CallExec ExecRename ?rn [] # cs2) = (ExecRename, ?rn, []) # rest \<and>
       (\<forall>e \<in> set rest. fst e = ExecOwner \<longrightarrow> e = ?ow) \<and>
       (fst (resourcePostgreSQLDatabaseUpdate L c d w) = None \<and> Get d dbOwnerAttr \<noteq> [] \<longrightarrow>
          ?ow \<in> set rest)"
  proof (intro exI[of _ "execs cs2"] conjI)
    show "execs (CallExec ExecRename ?rn [] # cs2) = (ExecRename, ?rn, []) # execs cs2"
      by simp
    show "\<forall>e \<in> set (execs cs2). fst e = ExecOwner \<longrightarrow> e = ?ow"
      by (rule bound)
    show "fst (resourcePostgreSQLDatabaseUpdate L c d w) = None \<and> Get d dbOwnerAttr \<noteq> [] \<longrightarrow>
            ?ow \<in> set (execs cs2)"
      using pos by blast
  qed
  show ?thesis
    by (rule exI[of _ "CallExec ExecRename ?rn [] # cs2"]) (simp only: all main False if_False simp_thms)
qed

theorem rename_before_owner_witness:
  "HasChange (testData ''app_db'' testAttrs (testAttrs\<lparr>dbNameAttr := ''new_db'', dbOwnerAttr := ''bob''\<rparr>))
     dbNameAttr \<and>
   HasChange (testData ''app_db'' testAttrs (testAttrs\<lparr>dbNameAttr := ''new_db'', dbOwnerAttr := ''bob''\<rparr>))
     dbOwnerAttr \<and>
   Get (testData ''app_db'' testAttrs (testAttrs\<lparr>dbNameAttr := ''new_db'', dbOwnerAttr := ''bob''\<rparr>))
     dbNameAttr = ''new_db'' \<and>
   snd (GetChange (testData ''app_db'' testAttrs
     (testAttrs\<lparr>dbNameAttr := ''new_db'', dbOwnerAttr := ''bob''\<rparr>)) dbNameAttr) = ''new_db'' \<and>
   (\<exists>cs rest.
      calls (snd (snd (resourcePostgreSQLDatabaseUpdate testLib
        (testClient ''postgres'' (\<lambda>f. True) []
           (testAttrs\<lparr>dbNameAttr := ''new_db'', dbOwnerAttr := ''bob''\<rparr>))
        (testData ''app_db'' testAttrs (testAttrs\<lparr>dbNameAttr := ''new_db'', dbOwnerAttr := ''bob''\<rparr>))
        emptyWorld))) = calls emptyWorld @ cs \<and>
      execs cs =
        (ExecRename, ''ALTER DATABASE '' @ QuoteIdentifier testLib ''app_db'' @ '' RENAME TO '' @
           QuoteIdentifier testLib ''new_db'', []) # rest \<and>
      (ExecOwner, ''ALTER DATABASE '' @ QuoteIdentifier testLib ''new_db'' @ '' OWNER TO '' @
           QuoteIdentifier testLib ''bob'', []) \<in> set rest)"
proof -
  let ?c = "testClient ''postgres'' (\<lambda>f. True) []
           (testAttrs\<lparr>dbNameAttr := ''new_db'', dbOwnerAttr := ''bob''\<rparr>)"
  let ?d = "testData ''app_db'' testAttrs (testAttrs\<lparr>dbNameAttr := ''new_db'', dbOwnerAttr := ''bob''\<rparr>)"
  have h: "HasChange ?d dbNameAttr" "HasChange ?d dbOwnerAttr"
    "Get ?d dbNameAttr = snd (GetChange ?d dbNameAttr)"
    by (simp_all add: HasChange_def GetChange_def Get_def testData_def testAttrs_def)
  have v: "Get ?d dbNameAttr = ''new_db''" "snd (GetChange ?d dbNameAttr) = ''new_db''"
    "fst (GetChange ?d dbNameAttr) = ''app_db''" "Get ?d dbOwnerAttr = ''bob''"
    by (simp_all add: GetChange_def Get_def testData_def testAttrs_def)
  have ok: "fst (resourcePostgreSQLDatabaseUpdate testLib ?c ?d emptyWorld) = None"
    by (simp add: create_defs op_defs test_defs)
  show ?thesis
    using rename_before_owner[OF h, of testLib ?c emptyWorld] h(1,2) ok
    unfolding v by auto
qed

subsection \<open>Reading back after Create\<close>







end
